theory Spec2Isabelle
  imports Complex_Main
begin

section \<open>The solver state of \<open>vcs_rxnadj.cpp\<close>\<close>

text \<open>
  The routines of \<open>vcs_rxnadj.cpp\<close> are member functions of \<open>VCS_SOLVE\<close> and work on
  its member arrays. The record below holds the members the file reads or writes.
  An array is a function from its index; a finite \<open>double\<close> is the \<open>real\<close> it stands
  for (infinities and NaN are outside the model, and a quotient whose divisor is zero is
  outside it as well); an index or a count is a \<open>nat\<close>. The literals \<open>1.0e10\<close>,
  \<open>1.0e-4\<close>, \<open>1.0e-10\<close> and \<open>1.0E-15\<close> are written out in decimal.
  The reaction adjustment and the first reading of the corrector compute with the exact
  operations of the reals. The line search and the second reading of the corrector,
  \<open>vcs_Hessian_diag_adj_dbl\<close>, take the arithmetic of the doubles as a parameter, so
  that what is proved of them holds however the operations round.
  \<open>SingleSpecies j\<close> is the flag \<open>VPhaseList[j]->SingleSpecies\<close>.
  The two status constants \<open>VCS_SPECIES_MAJOR\<close> and \<open>VCS_SPECIES_MINOR\<close> come from a
  header that is not part of the file, so they are carried as fields.
\<close>

record vcs_state =
  m_numRxnRdc :: nat
  m_numComponents :: nat
  m_numSpeciesRdc :: nat
  NPhase :: nat
  ir :: "nat \<Rightarrow> nat"
  soln :: "nat \<Rightarrow> real"
  ds :: "nat \<Rightarrow> real"
  dg :: "nat \<Rightarrow> real"
  sc :: "nat \<Rightarrow> nat \<Rightarrow> real"
  DnPhase :: "nat \<Rightarrow> nat \<Rightarrow> real"
  SSPhase :: "nat \<Rightarrow> bool"
  SingleSpecies :: "nat \<Rightarrow> bool"
  PhaseID :: "nat \<Rightarrow> nat"
  TPhMoles :: "nat \<Rightarrow> real"
  spStatus :: "nat \<Rightarrow> int"
  m_numRxnMinorZeroed :: int
  tolmaj2 :: real
  VCS_SPECIES_MAJOR :: int
  VCS_SPECIES_MINOR :: int
  dLnActCoeffdMolNum :: "nat \<Rightarrow> nat \<Rightarrow> real"
  PhaseParticipation :: "nat \<Rightarrow> nat \<Rightarrow> int"
  wt :: "nat \<Rightarrow> real"
  ActCoeff0 :: "nat \<Rightarrow> real"
  ActCoeff :: "nat \<Rightarrow> real"
  m_feSpecies_old :: "nat \<Rightarrow> real"
  m_feSpecies_new :: "nat \<Rightarrow> real"

text \<open>\<open>exit(-1)\<close> ends the process; it is the only abort of the file.\<close>

datatype vcs_error = ProcessExit int

section \<open>The arithmetic of the doubles\<close>

text \<open>
  The four operations on doubles and the value of a decimal literal, as functions on the
  reals that finite doubles stand for. Comparison, negation and \<open>fabs\<close> are exact on
  doubles, and so are the literals \<open>0.0\<close>, \<open>0.5\<close> and \<open>1.0\<close>; they are not part of the
  record. \<open>exact_arith\<close> rounds nothing.
\<close>

record dbl_arith =
  dadd :: "real \<Rightarrow> real \<Rightarrow> real"
  dsub :: "real \<Rightarrow> real \<Rightarrow> real"
  dmul :: "real \<Rightarrow> real \<Rightarrow> real"
  ddiv :: "real \<Rightarrow> real \<Rightarrow> real"
  dlit :: "real \<Rightarrow> real"

definition exact_arith :: dbl_arith where
  "exact_arith = \<lparr> dadd = (+), dsub = (-), dmul = (*), ddiv = (/), dlit = (\<lambda>x. x) \<rparr>"

text \<open>
  The arithmetic of IEEE 754 binary64 in its default mode: the exact result, rounded to
  the nearest double, a tie going to the even significand. A double has 53 significant
  bits above \<open>2\<^sup>-\<^sup>1\<^sup>0\<^sup>2\<^sup>2\<close>; below, the doubles are the multiples of
  \<open>2\<^sup>-\<^sup>1\<^sup>0\<^sup>7\<^sup>4\<close>. \<open>quantum_exp x\<close> is the exponent of the spacing of the doubles
  around \<open>x\<close>. A result beyond the largest double is outside the model.
\<close>

definition round_even :: "real \<Rightarrow> int" where
  "round_even y =
    (let n = \<lfloor>y\<rfloor>; r = y - of_int n
     in if r < 1 / 2 then n else if 1 / 2 < r then n + 1 else if even n then n else n + 1)"

definition quantum_exp :: "real \<Rightarrow> int" where
  "quantum_exp x = (if \<bar>x\<bar> < 2 powi (- 1022) then - 1074 else \<lfloor>log 2 \<bar>x\<bar>\<rfloor> - 52)"

definition b64 :: "real \<Rightarrow> real" where
  "b64 x = of_int (round_even (x / 2 powi quantum_exp x)) * 2 powi quantum_exp x"

definition binary64 :: dbl_arith where
  "binary64 = \<lparr> dadd = (\<lambda>x y. b64 (x + y)), dsub = (\<lambda>x y. b64 (x - y)),
                dmul = (\<lambda>x y. b64 (x * y)), ddiv = (\<lambda>x y. b64 (x / y)), dlit = b64 \<rparr>"

text \<open>\<open>accurate u x y\<close>: the value \<open>y\<close> is \<open>x\<close> up to the relative error \<open>u\<close>.\<close>

definition accurate :: "real \<Rightarrow> real \<Rightarrow> real \<Rightarrow> bool" where
  "accurate u x y = (\<bar>y - x\<bar> \<le> u * \<bar>x\<bar>)"

section \<open>The Hessian diagonal\<close>

text \<open>
  \<open>vcs_Hessian_actCoeff_diag\<close>: the self term, then for every component \<open>l\<close> outside a
  single species phase the inner loop over the components \<open>k\<close> of the same phase and the
  cross term with the species of the reaction.
\<close>

definition vcs_Hessian_actCoeff_diag :: "vcs_state \<Rightarrow> nat \<Rightarrow> real" where
  "vcs_Hessian_actCoeff_diag st irxn =
    (let kspec = ir st irxn;
         kph = PhaseID st kspec;
         sc_irxn = sc st irxn;
         J = dLnActCoeffdMolNum st
     in fold (\<lambda>l s.
          if \<not> SSPhase st l then
            (let s1 = fold (\<lambda>k s'.
                        if PhaseID st k = PhaseID st l
                        then s' + sc_irxn k * sc_irxn l * J k l else s')
                      [0..<m_numComponents st] s
             in if kph = PhaseID st l
                then s1 + sc_irxn l * (J kspec l + J l kspec) else s1)
          else s)
        [0..<m_numComponents st] (J kspec kspec))"

definition vcs_Hessian_diag_adj :: "vcs_state \<Rightarrow> nat \<Rightarrow> real \<Rightarrow> vcs_error + real" where
  "vcs_Hessian_diag_adj st irxn hessianDiag_Ideal =
    (let diag = hessianDiag_Ideal;
         hessActCoef = vcs_Hessian_actCoeff_diag st irxn
     in if hessianDiag_Ideal \<le> 0.0 then Inl (ProcessExit (- 1))
        else if hessActCoef \<ge> 0.0 then Inr (diag + hessActCoef)
        else if \<bar>hessActCoef\<bar> < 0.6666 * hessianDiag_Ideal then Inr (diag + hessActCoef)
        else Inr (diag - 0.6666 * hessianDiag_Ideal))"

text \<open>
  The same two functions with the arithmetic of the doubles as a parameter: every sum,
  difference and product of the source goes through it, and so does the literal
  \<open>0.6666\<close>.
\<close>

definition vcs_Hessian_actCoeff_diag_dbl :: "dbl_arith \<Rightarrow> vcs_state \<Rightarrow> nat \<Rightarrow> real" where
  "vcs_Hessian_actCoeff_diag_dbl fp st irxn =
    (let kspec = ir st irxn;
         kph = PhaseID st kspec;
         sc_irxn = sc st irxn;
         J = dLnActCoeffdMolNum st
     in fold (\<lambda>l s.
          if \<not> SSPhase st l then
            (let s1 = fold (\<lambda>k s'.
                        if PhaseID st k = PhaseID st l
                        then dadd fp s' (dmul fp (dmul fp (sc_irxn k) (sc_irxn l)) (J k l))
                        else s')
                      [0..<m_numComponents st] s
             in if kph = PhaseID st l
                then dadd fp s1 (dmul fp (sc_irxn l) (dadd fp (J kspec l) (J l kspec)))
                else s1)
          else s)
        [0..<m_numComponents st] (J kspec kspec))"

definition vcs_Hessian_diag_adj_dbl ::
  "dbl_arith \<Rightarrow> vcs_state \<Rightarrow> nat \<Rightarrow> real \<Rightarrow> vcs_error + real" where
  "vcs_Hessian_diag_adj_dbl fp st irxn hessianDiag_Ideal =
    (let diag = hessianDiag_Ideal;
         hessActCoef = vcs_Hessian_actCoeff_diag_dbl fp st irxn
     in if hessianDiag_Ideal \<le> 0.0 then Inl (ProcessExit (- 1))
        else if hessActCoef \<ge> 0.0 then Inr (dadd fp diag hessActCoef)
        else if \<bar>hessActCoef\<bar> < dmul fp (dlit fp 0.6666) hessianDiag_Ideal
             then Inr (dadd fp diag hessActCoef)
        else Inr (dsub fp diag (dmul fp (dlit fp 0.6666) hessianDiag_Ideal)))"

section \<open>The reaction adjustment\<close>

text \<open>
  Modelled from the spec: the macro \<open>SQUARE\<close> comes from \<open>vcs_internal.h\<close>, which is
  missing; the curvature is given there with the terms \<open>(sc[k][c])\<^sup>2\<close> and
  \<open>(DnPhase[k][phase])\<^sup>2\<close>, so the macro is the product of its argument with itself.
\<close>

definition SQUARE :: "real \<Rightarrow> real" where
  "SQUARE x = x * x"

text \<open>
  The diagonal curvature \<open>s\<close> of \<open>vcs_rxn_adj_cg\<close>: the term of the species of the
  reaction, the loop over the components and the loop over the phases.
\<close>

definition rxn_curvature :: "vcs_state \<Rightarrow> nat \<Rightarrow> real" where
  "rxn_curvature st irxn =
    (let kspec = ir st irxn;
         dnPhase_irxn = DnPhase st irxn;
         s0 = (if SSPhase st kspec then 0.0 else 1.0 / soln st kspec);
         s1 = fold (\<lambda>j s. if \<not> SSPhase st j
                             then s + SQUARE (sc st irxn j) / soln st j else s)
                [0..<m_numComponents st] s0
     in fold (\<lambda>j s. if \<not> SingleSpecies st j
                       then (if TPhMoles st j > 0.0
                             then s - SQUARE (dnPhase_irxn j) / TPhMoles st j else s)
                       else s)
          [0..<NPhase st] s1)"

text \<open>
  The two searches of the degenerate branch. Each runs over the components in index
  order with the pair \<open>(dss, k)\<close>; a component replaces the pair only when its bound is
  strictly below \<open>dss\<close>. The variable \<open>k\<close> is declared once, at the head of
  \<open>vcs_rxn_adj_cg\<close>, so the second search starts from the \<open>k\<close> it is given.
\<close>

definition bound_pos :: "vcs_state \<Rightarrow> nat \<Rightarrow> nat \<Rightarrow> real \<times> nat \<Rightarrow> real \<times> nat" where
  "bound_pos st irxn j p =
    (case p of (dss, k) \<Rightarrow>
      if sc st irxn j > 0.0 then
        (let xx = soln st j / sc st irxn j
         in if xx < dss then (xx, j) else (dss, k))
      else (dss, k))"

definition bound_neg :: "vcs_state \<Rightarrow> nat \<Rightarrow> nat \<Rightarrow> real \<times> nat \<Rightarrow> real \<times> nat" where
  "bound_neg st irxn j p =
    (case p of (dss, k) \<Rightarrow>
      if sc st irxn j < 0.0 then
        (let xx = - soln st j / sc st irxn j
         in if xx < dss then (xx, j) else (dss, k))
      else (dss, k))"

definition elim_bound :: "vcs_state \<Rightarrow> nat \<Rightarrow> nat \<Rightarrow> real \<times> nat" where
  "elim_bound st irxn k =
    (let kspec = ir st irxn
     in if dg st irxn > 0.0 then
          (case fold (bound_pos st irxn) [0..<m_numComponents st] (soln st kspec, kspec) of
             (dss, k') \<Rightarrow> (- dss, k'))
        else fold (bound_neg st irxn) [0..<m_numComponents st] (10000000000.0, k))"

text \<open>
  The update of the degenerate branch: the species of the reaction and its phase, every
  component and its phase, then species \<open>k\<close> and its phase are set to zero.
\<close>

definition add_component :: "nat \<Rightarrow> real \<Rightarrow> nat \<Rightarrow> vcs_state \<Rightarrow> vcs_state" where
  "add_component irxn dss j st =
    (let st1 = st\<lparr>soln := (soln st)(j := soln st j + dss * sc st irxn j)\<rparr>
     in st1\<lparr>TPhMoles := (TPhMoles st1)
              (PhaseID st1 j := TPhMoles st1 (PhaseID st1 j) + dss * sc st1 irxn j)\<rparr>)"

definition elim_update :: "vcs_state \<Rightarrow> nat \<Rightarrow> real \<Rightarrow> nat \<Rightarrow> vcs_state" where
  "elim_update st irxn dss k =
    (let kspec = ir st irxn;
         st1 = st\<lparr>soln := (soln st)(kspec := soln st kspec + dss)\<rparr>;
         st2 = st1\<lparr>TPhMoles := (TPhMoles st1)
                (PhaseID st1 kspec := TPhMoles st1 (PhaseID st1 kspec) + dss)\<rparr>;
         st3 = fold (add_component irxn dss) [0..<m_numComponents st2] st2;
         st4 = st3\<lparr>soln := (soln st3)(k := 0.0)\<rparr>
     in st4\<lparr>TPhMoles := (TPhMoles st4)(PhaseID st4 k := 0.0)\<rparr>)"

text \<open>
  One pass of the loop body for reaction \<open>irxn\<close>. \<open>Next st k\<close>: the loop goes on with
  the next reaction (the end of the body or a \<open>continue\<close>); \<open>Return soldel st\<close>: the
  function returns at once.
\<close>

datatype rxn_outcome = Next vcs_state nat | Return int vcs_state

definition rxn_body :: "vcs_state \<Rightarrow> nat \<Rightarrow> nat \<Rightarrow> rxn_outcome" where
  "rxn_body st k irxn =
    (let kspec = ir st irxn
     in if soln st kspec = 0.0 \<and> \<not> SSPhase st kspec then
          (if dg st irxn < - 0.0001 then
             Next (st\<lparr>ds := (ds st)(kspec := 0.0000000001),
                      spStatus := (spStatus st)(irxn := VCS_SPECIES_MAJOR st),
                      m_numRxnMinorZeroed := m_numRxnMinorZeroed st - 1\<rparr>) k
           else Next (st\<lparr>ds := (ds st)(kspec := 0.0)\<rparr>) k)
        else if \<bar>dg st irxn\<bar> \<le> tolmaj2 st then Next st k
        else if spStatus st irxn \<le> VCS_SPECIES_MINOR st \<and> dg st irxn \<ge> 0.0 then Next st k
        else
          (let s = rxn_curvature st irxn
           in if s \<noteq> 0.0 then Next (st\<lparr>ds := (ds st)(kspec := - dg st irxn / s)\<rparr>) k
              else
                (case elim_bound st irxn k of
                   (dss, k') \<Rightarrow>
                     if dss \<noteq> 0.0 then
                       Return (if k' \<noteq> kspec then 2 else 1) (elim_update st irxn dss k')
                     else Next st k')))"

text \<open>The loop over the reactions, from \<open>irxn\<close> on; \<open>soldel\<close> is still 0 when it ends.\<close>

function rxn_loop :: "nat \<Rightarrow> nat \<Rightarrow> vcs_state \<Rightarrow> int \<times> vcs_state" where
  "rxn_loop irxn k st =
    (if irxn < m_numRxnRdc st then
       (case rxn_body st k irxn of
          Next st' k' \<Rightarrow> rxn_loop (Suc irxn) k' st'
        | Return soldel st' \<Rightarrow> (soldel, st'))
     else (0, st))"
  by pat_completeness auto
termination
  by (relation "measure (\<lambda>(irxn, k, st). m_numRxnRdc st - irxn)")
     (auto simp: rxn_body_def Let_def split: if_splits prod.splits)

definition vcs_rxn_adj_cg :: "vcs_state \<Rightarrow> int \<times> vcs_state" where
  "vcs_rxn_adj_cg st = rxn_loop 0 0 st"

section \<open>The free energy of a reaction and the line search\<close>

text \<open>
  \<open>vcs_chemPotPhase\<close> is called here and defined elsewhere. It is a parameter of the
  model: from a phase, the mole numbers and the two buffers it gives the buffers back,
  filled in for that phase.
\<close>

type_synonym chemPotPhase =
  "nat \<Rightarrow> (nat \<Rightarrow> real) \<Rightarrow> (nat \<Rightarrow> real) \<Rightarrow> (nat \<Rightarrow> real)
     \<Rightarrow> (nat \<Rightarrow> real) \<times> (nat \<Rightarrow> real)"

text \<open>
  Modelled from the spec: \<open>vcs_dcopy\<close> comes from \<open>vcs_internal.h\<close>, which is missing.
  The trial point is the current composition moved by the step, so the call copies the
  first \<open>n\<close> mole numbers of the source into the destination.
\<close>

definition vcs_dcopy :: "(nat \<Rightarrow> real) \<Rightarrow> (nat \<Rightarrow> real) \<Rightarrow> nat \<Rightarrow> (nat \<Rightarrow> real)" where
  "vcs_dcopy vec_to vec_from n = (\<lambda>i. if i < n then vec_from i else vec_to i)"

text \<open>
  \<open>deltaG_Recalc_Rxn\<close> returns the free energy change and the two buffers it wrote.
  From here on \<open>fp\<close> is the arithmetic of the doubles.
\<close>

definition deltaG_Recalc_Rxn ::
  "dbl_arith \<Rightarrow> chemPotPhase \<Rightarrow> vcs_state \<Rightarrow> nat \<Rightarrow> (nat \<Rightarrow> real) \<Rightarrow> (nat \<Rightarrow> real)
     \<Rightarrow> (nat \<Rightarrow> real) \<Rightarrow> real \<times> (nat \<Rightarrow> real) \<times> (nat \<Rightarrow> real)" where
  "deltaG_Recalc_Rxn fp vcs_chemPotPhase st irxn molNum ac mu_i =
    (let kspec = irxn + m_numComponents st;
         pp_ptr = PhaseParticipation st irxn
     in case fold (\<lambda>iphase (a, m).
                 if pp_ptr iphase \<noteq> 0 then vcs_chemPotPhase iphase molNum a m else (a, m))
               [0..<NPhase st] (ac, mu_i) of
          (ac', mu') \<Rightarrow>
            (fold (\<lambda>k deltaG. dadd fp deltaG (dmul fp (sc st irxn k) (mu' k)))
               [0..<m_numComponents st] (mu' kspec), ac', mu'))"

text \<open>
  The trial composition at step \<open>dx\<close>, written into \<open>molNum\<close>: the species of the
  reaction, then every component.
\<close>

definition trial_molNum ::
  "dbl_arith \<Rightarrow> vcs_state \<Rightarrow> nat \<Rightarrow> real \<Rightarrow> (nat \<Rightarrow> real) \<Rightarrow> (nat \<Rightarrow> real)" where
  "trial_molNum fp st irxn dx molNum =
    (let kspec = ir st irxn
     in fold (\<lambda>k m. m(k := dadd fp (soln st k) (dmul fp (sc st irxn k) dx)))
          [0..<m_numComponents st] (molNum(kspec := dadd fp (soln st kspec) dx)))"

text \<open>The free energy change at the base point and the state with the buffers it wrote.\<close>

definition deltaG_base ::
  "dbl_arith \<Rightarrow> chemPotPhase \<Rightarrow> vcs_state \<Rightarrow> nat \<Rightarrow> real \<times> vcs_state" where
  "deltaG_base fp cp st irxn =
    (case deltaG_Recalc_Rxn fp cp st irxn (soln st) (ActCoeff0 st) (m_feSpecies_old st) of
       (deltaGOrig, ac', mu') \<Rightarrow>
         (deltaGOrig, st\<lparr>ActCoeff0 := ac', m_feSpecies_old := mu'\<rparr>))"

text \<open>The free energy change at a trial composition, and the state it leaves.\<close>

definition deltaG_trial ::
  "dbl_arith \<Rightarrow> chemPotPhase \<Rightarrow> vcs_state \<Rightarrow> nat \<Rightarrow> (nat \<Rightarrow> real) \<Rightarrow> real \<times> vcs_state" where
  "deltaG_trial fp cp st irxn molNum =
    (case deltaG_Recalc_Rxn fp cp st irxn molNum (ActCoeff st) (m_feSpecies_new st) of
       (deltaG, ac', mu') \<Rightarrow>
         (deltaG, st\<lparr>wt := molNum, ActCoeff := ac', m_feSpecies_new := mu'\<rparr>))"

text \<open>The free energy change at the full step, after the copy of the base composition.\<close>

definition deltaG_full ::
  "dbl_arith \<Rightarrow> chemPotPhase \<Rightarrow> vcs_state \<Rightarrow> nat \<Rightarrow> real \<Rightarrow> real \<times> vcs_state" where
  "deltaG_full fp cp st irxn dx_orig =
    deltaG_trial fp cp st irxn
      (trial_molNum fp st irxn dx_orig (vcs_dcopy (wt st) (soln st) (m_numSpeciesRdc st)))"

definition MAXITS :: nat where
  "MAXITS = 10"

text \<open>The halving loop, from iteration \<open>its\<close> on with the current step \<open>dx\<close>.\<close>

function halving ::
  "dbl_arith \<Rightarrow> chemPotPhase \<Rightarrow> nat \<Rightarrow> real \<Rightarrow> real \<Rightarrow> real \<Rightarrow> nat \<Rightarrow> real \<Rightarrow> vcs_state
     \<Rightarrow> real \<times> vcs_state" where
  "halving fp cp irxn dx_orig deltaGOrig forig its dx st =
    (if its < MAXITS then
       (let dx1 = dmul fp dx 0.5
        in case deltaG_trial fp cp st irxn (trial_molNum fp st irxn dx1 (wt st)) of
             (deltaG, st') \<Rightarrow>
               if dmul fp deltaG deltaGOrig > 0.0 then (dx1, st')
               else if ddiv fp \<bar>deltaG\<bar> forig
                         < dsub fp 1.0 (ddiv fp (dmul fp (dlit fp 0.1) dx1) dx_orig) then
                 (if dmul fp deltaG deltaGOrig < 0.0 then
                    (let slope = ddiv fp (dsub fp deltaG deltaGOrig) dx1
                     in (ddiv fp (- deltaGOrig) slope, st'))
                  else (dx1, st'))
               else halving fp cp irxn dx_orig deltaGOrig forig (Suc its) dx1 st')
     else (dx, st))"
  by pat_completeness auto
termination
  by (relation
        "measure (\<lambda>(fp, cp, irxn, dx_orig, deltaGOrig, forig, its, dx, st). MAXITS - its)")
     auto

text \<open>
  \<open>vcs_line_search\<close>: the three early returns on the sign of the base value, the
  return on a zero step, the full step, the interpolation, and the halving loop.
\<close>

definition vcs_line_search ::
  "dbl_arith \<Rightarrow> chemPotPhase \<Rightarrow> vcs_state \<Rightarrow> nat \<Rightarrow> real \<Rightarrow> real \<times> vcs_state" where
  "vcs_line_search fp cp st irxn dx_orig =
    (case deltaG_base fp cp st irxn of
       (deltaGOrig, st0) \<Rightarrow>
         (let forig = dadd fp \<bar>deltaGOrig\<bar> (dlit fp 0.000000000000001);
              after_checks =
                (if dx_orig = 0.0 then (0.0, st0)
                 else
                   (case deltaG_full fp cp st0 irxn dx_orig of
                      (deltaG1, st1) \<Rightarrow>
                        if dmul fp deltaG1 deltaGOrig > 0.0 then (dx_orig, st1)
                        else if \<bar>deltaG1\<bar> < dmul fp (dlit fp 0.8) forig then
                          (if dmul fp deltaG1 deltaGOrig < 0.0 then
                             (let slope = ddiv fp (dsub fp deltaG1 deltaGOrig) dx_orig
                              in (ddiv fp (- deltaGOrig) slope, st1))
                           else (dx_orig, st1))
                        else halving fp cp irxn dx_orig deltaGOrig forig 0 dx_orig st1))
          in if deltaGOrig > 0.0 then
               (if dx_orig > 0.0 then (0.0, st0) else after_checks)
             else if deltaGOrig < 0.0 then
               (if dx_orig < 0.0 then (0.0, st0) else after_checks)
             else if deltaGOrig = 0.0 then (0.0, st0)
             else after_checks))"

section \<open>The balance of the phase totals\<close>

text \<open>
  The moles of the species \<open>0..<nsp\<close> that belong to phase \<open>ph\<close>, summed, and the
  statement that every phase total equals that sum.
\<close>

definition phase_sum :: "nat \<Rightarrow> vcs_state \<Rightarrow> nat \<Rightarrow> real" where
  "phase_sum nsp st ph = sum_list (map (soln st) (filter (\<lambda>i. PhaseID st i = ph) [0..<nsp]))"

definition phase_balance :: "nat \<Rightarrow> vcs_state \<Rightarrow> bool" where
  "phase_balance nsp st = list_all (\<lambda>ph. TPhMoles st ph = phase_sum nsp st ph) [0..<NPhase st]"

section \<open>Reading the searches\<close>

text \<open>
  Both searches have one shape: over the indices \<open>j\<close> with \<open>c j\<close>, keep the least value
  of \<open>f j\<close> seen so far and the index that first gave it. \<open>first_min c f n d k\<close> says
  that \<open>k\<close> is the first index below \<open>n\<close> with \<open>c k\<close> whose value is \<open>d\<close>, every
  earlier one lying strictly above \<open>d\<close>. \<open>degenerate\<close> collects the tests that lead
  reaction \<open>irxn\<close> into the branch with \<open>s == 0\<close>.
\<close>

definition scan :: "(nat \<Rightarrow> bool) \<Rightarrow> (nat \<Rightarrow> real) \<Rightarrow> nat \<Rightarrow> real \<times> nat \<Rightarrow> real \<times> nat" where
  "scan c f j p =
    (case p of (d, k) \<Rightarrow> if c j then (if f j < d then (f j, j) else (d, k)) else (d, k))"

definition first_min :: "(nat \<Rightarrow> bool) \<Rightarrow> (nat \<Rightarrow> real) \<Rightarrow> nat \<Rightarrow> real \<Rightarrow> nat \<Rightarrow> bool" where
  "first_min c f n d k = (k < n \<and> c k \<and> f k = d \<and> (\<forall>j<k. c j \<longrightarrow> d < f j))"

definition regular :: "vcs_state \<Rightarrow> nat \<Rightarrow> bool" where
  "regular st irxn = (\<not> (soln st (ir st irxn) = 0 \<and> \<not> SSPhase st (ir st irxn)))"

definition degenerate :: "vcs_state \<Rightarrow> nat \<Rightarrow> bool" where
  "degenerate st irxn =
    (regular st irxn
     \<and> \<not> \<bar>dg st irxn\<bar> \<le> tolmaj2 st
     \<and> \<not> (spStatus st irxn \<le> VCS_SPECIES_MINOR st \<and> dg st irxn \<ge> 0)
     \<and> rxn_curvature st irxn = 0)"

section \<open>Example states\<close>

text \<open>
  \<open>mk_state\<close> fills in a state from the data the reaction adjustment reads. The status of
  every species is major, the tolerance is \<open>1.0e-4\<close> and the step array holds zeros.
\<close>

definition mk_state ::
  "nat \<Rightarrow> nat \<Rightarrow> nat \<Rightarrow> (nat \<Rightarrow> nat) \<Rightarrow> (nat \<Rightarrow> real) \<Rightarrow> (nat \<Rightarrow> real) \<Rightarrow> (nat \<Rightarrow> nat \<Rightarrow> real)
     \<Rightarrow> (nat \<Rightarrow> nat \<Rightarrow> real) \<Rightarrow> (nat \<Rightarrow> bool) \<Rightarrow> (nat \<Rightarrow> bool) \<Rightarrow> (nat \<Rightarrow> nat) \<Rightarrow> (nat \<Rightarrow> real)
     \<Rightarrow> vcs_state" where
  "mk_state nrxn nc nph irs moles dgs scs dns ssp single pid tph =
    \<lparr> m_numRxnRdc = nrxn, m_numComponents = nc, m_numSpeciesRdc = nc + nrxn, NPhase = nph,
      ir = irs, soln = moles, ds = (\<lambda>_. 0), dg = dgs,
      sc = scs, DnPhase = dns, SSPhase = ssp,
      SingleSpecies = single, PhaseID = pid, TPhMoles = tph,
      spStatus = (\<lambda>_. 1), m_numRxnMinorZeroed = 0, tolmaj2 = 0.0001,
      VCS_SPECIES_MAJOR = 1, VCS_SPECIES_MINOR = 0,
      dLnActCoeffdMolNum = (\<lambda>_ _. 0), PhaseParticipation = (\<lambda>_ _. 1),
      wt = (\<lambda>_. 0), ActCoeff0 = (\<lambda>_. 1), ActCoeff = (\<lambda>_. 1),
      m_feSpecies_old = (\<lambda>_. 0), m_feSpecies_new = (\<lambda>_. 0) \<rparr>"

text \<open>
  Two single species phases: component 0 in phase 0 with \<open>n0\<close> moles and coefficient
  \<open>c\<close>, the species 1 of the one reaction in phase 1 with \<open>n1\<close> moles, and the free
  energy change \<open>g\<close>.
\<close>

definition two_solids :: "real \<Rightarrow> real \<Rightarrow> real \<Rightarrow> real \<Rightarrow> vcs_state" where
  "two_solids n0 n1 c g =
    mk_state 1 1 2 (\<lambda>_. 1) ((\<lambda>_. 0)(0 := n0, 1 := n1)) (\<lambda>_. g) (\<lambda>_ _. c)
      (\<lambda>_. (\<lambda>_. 0)(0 := c, 1 := 1)) (\<lambda>_. True) (\<lambda>_. True) (\<lambda>i. i)
      ((\<lambda>_. 0)(0 := n0, 1 := n1))"

text \<open>
  Four species in three phases. Phase 0 is a solution holding component 0 (1 mole) and
  species 3 (2 moles); component 1 (4 moles) and species 2 (5 moles) are single species
  phases 1 and 2. Reaction 0 forms species 2, with the coefficients 0 and 1 and the
  free energy change -1; reaction 1 forms species 3.
\<close>

definition solution_and_solids :: vcs_state where
  "solution_and_solids =
    mk_state 2 2 3 ((\<lambda>_. 0)(0 := 2, 1 := 3))
      ((\<lambda>_. 0)(0 := 1, 1 := 4, 2 := 5, 3 := 2))
      ((\<lambda>_. 0)(0 := - 1, 1 := 0))
      ((\<lambda>_ _. 0)(0 := (\<lambda>_. 0)(1 := 1)))
      ((\<lambda>_ _. 0)(0 := (\<lambda>_. 0)(1 := 1, 2 := 1), 1 := (\<lambda>_. 0)(0 := 1)))
      ((\<lambda>_. False)(1 := True, 2 := True))
      ((\<lambda>_. False)(1 := True, 2 := True))
      ((\<lambda>_. 0)(0 := 0, 1 := 1, 2 := 2, 3 := 0))
      ((\<lambda>_. 0)(0 := 3, 1 := 4, 2 := 5))"

text \<open>
  Three single species phases: component 0 (1 mole), species 1 of reaction 0 (no moles,
  coefficient -1, free energy change 1) and species 2 of reaction 1 (5 moles, coefficient
  1, free energy change -1).
\<close>

definition three_solids :: vcs_state where
  "three_solids =
    mk_state 2 1 3 ((\<lambda>_. 0)(0 := 1, 1 := 2))
      ((\<lambda>_. 0)(0 := 1, 1 := 0, 2 := 5))
      ((\<lambda>_. 0)(0 := 1, 1 := - 1))
      ((\<lambda>_ _. 0)(0 := (\<lambda>_. 0)(0 := - 1), 1 := (\<lambda>_. 0)(0 := 1)))
      ((\<lambda>_ _. 0)(0 := (\<lambda>_. 0)(0 := - 1, 1 := 1), 1 := (\<lambda>_. 0)(0 := 1, 2 := 1)))
      (\<lambda>_. True) (\<lambda>_. True) (\<lambda>i. i)
      ((\<lambda>_. 0)(0 := 1, 1 := 0, 2 := 5))"

text \<open>
  The two solids with a free energy change of \<open>1.0e-5\<close>, inside the tolerance, and the
  value \<open>d\<close> in every entry of the step array.
\<close>

definition converged_solids :: "real \<Rightarrow> vcs_state" where
  "converged_solids d = (two_solids 3 5 (- 1) 0.00001)\<lparr>ds := (\<lambda>_. d)\<rparr>"

text \<open>
  One solution phase holding component 0 (3 moles) and species 1 of the one reaction
  (no moles), a free energy change of \<open>-5.0e-4\<close> and a tolerance of \<open>1.0e-3\<close>.
\<close>

definition dead_species :: vcs_state where
  "dead_species =
    (two_solids 3 0 (- 1) (- 0.0005))
      \<lparr>NPhase := 1, DnPhase := (\<lambda>_ _. 0), SSPhase := (\<lambda>_. False),
       SingleSpecies := (\<lambda>_. False), PhaseID := (\<lambda>_. 0), TPhMoles := (\<lambda>_. 3),
       tolmaj2 := 0.001\<rparr>"

text \<open>
  For the line search: one species with \<open>n\<close> moles, no component, one phase, and a
  chemical potential of species 0 that is \<open>a + b * n\<close> at \<open>n\<close> moles.
\<close>

definition linear_potential :: "real \<Rightarrow> real \<Rightarrow> chemPotPhase" where
  "linear_potential a b = (\<lambda>iphase molNum ac mu. (ac, mu(0 := a + b * molNum 0)))"

definition one_species :: "real \<Rightarrow> vcs_state" where
  "one_species n =
    mk_state 1 0 1 (\<lambda>_. 0) (\<lambda>_. n) (\<lambda>_. 1) (\<lambda>_ _. 0) (\<lambda>_ _. 1) (\<lambda>_. False) (\<lambda>_. False)
      (\<lambda>_. 0) (\<lambda>_. n)"

text \<open>A state with no component whose only Jacobian entry of interest is \<open>h\<close>.\<close>

definition hess_state :: "real \<Rightarrow> vcs_state" where
  "hess_state h =
    \<lparr> m_numRxnRdc = 1, m_numComponents = 0, m_numSpeciesRdc = 1, NPhase = 1,
      ir = (\<lambda>_. 0), soln = (\<lambda>_. 1), ds = (\<lambda>_. 0), dg = (\<lambda>_. 0),
      sc = (\<lambda>_ _. 0), DnPhase = (\<lambda>_ _. 0), SSPhase = (\<lambda>_. False),
      SingleSpecies = (\<lambda>_. False), PhaseID = (\<lambda>_. 0), TPhMoles = (\<lambda>_. 1),
      spStatus = (\<lambda>_. 1), m_numRxnMinorZeroed = 0, tolmaj2 = 0,
      VCS_SPECIES_MAJOR = 1, VCS_SPECIES_MINOR = 0,
      dLnActCoeffdMolNum = (\<lambda>_ _. h), PhaseParticipation = (\<lambda>_ _. 0),
      wt = (\<lambda>_. 0), ActCoeff0 = (\<lambda>_. 1), ActCoeff = (\<lambda>_. 1),
      m_feSpecies_old = (\<lambda>_. 0), m_feSpecies_new = (\<lambda>_. 0) \<rparr>"

section \<open>The rounding of binary64\<close>

text \<open>
  In a binade \<open>[2\<^sup>n, 2\<^sup>n\<^sup>+\<^sup>1)\<close> of the normal range the doubles are spaced \<open>2\<^sup>n\<^sup>-\<^sup>5\<^sup>2\<close>
  apart, so rounding moves a value by at most half of that: a relative error of at most
  \<open>2\<^sup>-\<^sup>5\<^sup>3\<close>. Below \<open>2\<^sup>-\<^sup>1\<^sup>0\<^sup>2\<^sup>2\<close> the spacing stays \<open>2\<^sup>-\<^sup>1\<^sup>0\<^sup>7\<^sup>4\<close> and the relative error has no
  bound.
\<close>

lemma quantum_exp_normal:
  assumes "2 powi n \<le> \<bar>x\<bar>" and "\<bar>x\<bar> < 2 powi (n + 1)" and "- 1022 \<le> n"
  shows "quantum_exp x = n - 52"
proof -
  have pos: "0 < \<bar>x\<bar>" using assms(1) by (smt (verit) zero_less_power_int)
  have "2 powi (- 1022) \<le> (2::real) powi n"
    using assms(3) by (intro power_int_increasing) simp_all
  with assms(1) have big: "\<not> \<bar>x\<bar> < 2 powi (- 1022)" by simp
  have a: "(2::real) powr of_int n = 2 powi n" by (simp add: powr_real_of_int')
  have b: "(2::real) powr (of_int n + 1) = 2 powi (n + 1)"
    using powr_real_of_int' [of 2 "n + 1"] by simp
  have "\<lfloor>log 2 \<bar>x\<bar>\<rfloor> = n"
    using assms(1,2) pos by (simp add: floor_log_eq_powr_iff a b)
  with big show ?thesis by (simp add: quantum_exp_def)
qed

lemma round_even_near: "\<bar>of_int (round_even y) - y\<bar> \<le> 1 / 2"
proof -
  have "of_int \<lfloor>y\<rfloor> \<le> y" "y < of_int \<lfloor>y\<rfloor> + 1" by linarith+
  then show ?thesis by (auto simp: round_even_def Let_def)
qed

lemma round_even_up:
  assumes "of_int n + 1 / 2 < y" and "y < of_int n + 1"
  shows "round_even y = n + 1"
proof -
  have "\<lfloor>y\<rfloor> = n" using assms by (simp add: floor_eq_iff)
  with assms show ?thesis by (simp add: round_even_def Let_def)
qed

lemma round_even_down:
  assumes "of_int n \<le> y" and "y < of_int n + 1 / 2"
  shows "round_even y = n"
proof -
  have "\<lfloor>y\<rfloor> = n" using assms by (simp add: floor_eq_iff)
  with assms show ?thesis by (simp add: round_even_def Let_def)
qed

lemma round_even_of_int: "round_even (of_int m) = m"
  by (simp add: round_even_def)

lemma binade:
  fixes x :: real
  assumes "2 powi (- 1022) \<le> \<bar>x\<bar>"
  shows "\<exists>n. - 1022 \<le> n \<and> 2 powi n \<le> \<bar>x\<bar> \<and> \<bar>x\<bar> < 2 powi (n + 1)"
proof -
  have pos: "0 < \<bar>x\<bar>" using assms by (smt (verit) zero_less_power_int)
  define n where "n = \<lfloor>log 2 \<bar>x\<bar>\<rfloor>"
  have a: "(2::real) powr of_int n = 2 powi n" by (simp add: powr_real_of_int')
  have b: "(2::real) powr (of_int n + 1) = 2 powi (n + 1)"
    using powr_real_of_int' [of 2 "n + 1"] by simp
  from n_def pos have "2 powr of_int n \<le> \<bar>x\<bar> \<and> \<bar>x\<bar> < 2 powr (of_int n + 1)"
    using floor_log_eq_powr_iff [of "\<bar>x\<bar>" 2 n] by simp
  then have r: "2 powi n \<le> \<bar>x\<bar>" "\<bar>x\<bar> < 2 powi (n + 1)" by (simp_all add: a b)
  have "- 1022 \<le> n"
  proof (rule ccontr)
    assume "\<not> - 1022 \<le> n"
    then have "n + 1 \<le> - 1022" by simp
    then have "(2::real) powi (n + 1) \<le> 2 powi (- 1022)"
      by (intro power_int_increasing) simp_all
    with r(2) assms show False by simp
  qed
  with r show ?thesis by blast
qed

lemma b64_accurate:
  assumes "2 powi (- 1022) \<le> \<bar>x\<bar>"
  shows "accurate (2 powi (- 53)) x (b64 x)"
proof -
  from binade [OF assms] obtain n where n: "- 1022 \<le> n" "2 powi n \<le> \<bar>x\<bar>" "\<bar>x\<bar> < 2 powi (n + 1)"
    by blast
  let ?q = "(2::real) powi (n - 52)"
  have q: "quantum_exp x = n - 52" by (rule quantum_exp_normal [OF n(2,3,1)])
  have qpos: "0 < ?q" by simp
  have "b64 x - x = (of_int (round_even (x / ?q)) - x / ?q) * ?q"
    using qpos by (simp add: b64_def q field_simps)
  then have "\<bar>b64 x - x\<bar> = \<bar>of_int (round_even (x / ?q)) - x / ?q\<bar> * ?q"
    using qpos by (simp add: abs_mult)
  also have "\<dots> \<le> (1 / 2) * ?q"
    using round_even_near [of "x / ?q"] qpos by (intro mult_right_mono) simp_all
  also have "(1 / 2) * ?q = 2 powi (- 53) * 2 powi n"
    by (simp add: power_int_diff power_int_minus field_simps)
  also have "\<dots> \<le> 2 powi (- 53) * \<bar>x\<bar>"
    using n(2) by (intro mult_left_mono) simp_all
  finally show ?thesis by (simp add: accurate_def)
qed

lemma accurate_mono: "accurate u x y \<Longrightarrow> u \<le> v \<Longrightarrow> accurate v x y"
  unfolding accurate_def by (meson abs_ge_zero mult_right_mono order_trans)

lemma binary64_accurate:
  assumes "2 powi (- 1022) \<le> \<bar>x\<bar>"
  shows "accurate (1 / 100000) x (b64 x)"
  by (rule accurate_mono [OF b64_accurate [OF assms]]) (simp add: power_int_minus)

lemma accurate_lower:
  assumes "accurate (1 / 100000) x y" and "0 \<le> x"
  shows "(99999 / 100000) * x \<le> y" and "y \<le> (100001 / 100000) * x"
  using assms unfolding accurate_def by linarith+

lemma binary64_fields:
  "dadd binary64 x y = b64 (x + y)" "dsub binary64 x y = b64 (x - y)"
  "dmul binary64 x y = b64 (x * y)" "ddiv binary64 x y = b64 (x / y)"
  "dlit binary64 x = b64 x"
  by (simp_all add: binary64_def)

lemma b64_zero: "b64 0 = 0"
  by (simp add: b64_def round_even_def)

lemma b64_subnormal:
  assumes "\<bar>x\<bar> < 2 powi (- 1022)"
  shows "b64 x = of_int (round_even (x * 2 ^ 1074)) * 2 powi (- 1074)"
  using assms by (simp add: b64_def quantum_exp_def power_int_minus)

lemma b64_exact:
  assumes "2 powi n \<le> \<bar>x\<bar>" and "\<bar>x\<bar> < 2 powi (n + 1)" and "- 1022 \<le> n"
    and "x = of_int m * 2 powi (n - 52)"
  shows "b64 x = x"
proof -
  have q: "quantum_exp x = n - 52" by (rule quantum_exp_normal [OF assms(1,2,3)])
  have "x / 2 powi (n - 52) = of_int m" by (simp add: assms(4))
  then have "b64 x = of_int m * 2 powi (n - 52)"
    by (simp only: b64_def q round_even_of_int)
  then show ?thesis by (simp only: assms(4) [symmetric])
qed

lemma b64_values:
  "b64 1 = 1" "b64 (- 1) = - 1" "b64 2 = 2" "b64 (1 / 2) = 1 / 2" "b64 (- (1 / 2)) = - (1 / 2)"
  "b64 (- (3 / 2)) = - (3 / 2)"
proof -
  show "b64 1 = 1"
    by (rule b64_exact [where n = 0 and m = "2 ^ 52"]) (simp_all add: power_int_minus)
  show "b64 (- 1) = - 1"
    by (rule b64_exact [where n = 0 and m = "- (2 ^ 52)"]) (simp_all add: power_int_minus)
  show "b64 2 = 2"
    by (rule b64_exact [where n = 1 and m = "2 ^ 52"]) (simp_all add: power_int_minus)
  show "b64 (1 / 2) = 1 / 2"
    by (rule b64_exact [where n = "- 1" and m = "2 ^ 52"]) (simp_all add: power_int_minus)
  show "b64 (- (1 / 2)) = - (1 / 2)"
    by (rule b64_exact [where n = "- 1" and m = "- (2 ^ 52)"]) (simp_all add: power_int_minus)
  show "b64 (- (3 / 2)) = - (3 / 2)"
    by (rule b64_exact [where n = 0 and m = "- (3 * 2 ^ 51)"]) (simp_all add: power_int_minus)
qed

lemma b64_lit_6666: "0.6665 < b64 0.6666" "b64 0.6666 < 0.6667"
proof -
  have "quantum_exp 0.6666 = (- 1) - 52"
    by (rule quantum_exp_normal) (simp_all add: power_int_minus)
  then show "0.6665 < b64 0.6666" "b64 0.6666 < 0.6667"
    by (simp_all add: b64_def round_even_def power_int_minus Let_def)
qed

section \<open>The corrector of the Hessian diagonal\<close>

lemma hess_state_actCoeff: "vcs_Hessian_actCoeff_diag (hess_state h) 0 = h"
  by (simp add: vcs_Hessian_actCoeff_diag_def hess_state_def)

lemma hess_state_actCoeff_dbl: "vcs_Hessian_actCoeff_diag_dbl fp (hess_state h) 0 = h"
  by (simp add: vcs_Hessian_actCoeff_diag_dbl_def hess_state_def)

text \<open>With the exact arithmetic the second reading of the corrector is the first.\<close>

lemma exact_arith_fields:
  "dadd exact_arith = (+)" "dsub exact_arith = (-)" "dmul exact_arith = (*)"
  "ddiv exact_arith = (/)" "dlit exact_arith = (\<lambda>x. x)"
  by (simp_all add: exact_arith_def)

lemma Hessian_actCoeff_diag_exact:
  "vcs_Hessian_actCoeff_diag_dbl exact_arith st irxn = vcs_Hessian_actCoeff_diag st irxn"
  unfolding vcs_Hessian_actCoeff_diag_dbl_def vcs_Hessian_actCoeff_diag_def exact_arith_fields
  by (rule refl)

lemma Hessian_diag_adj_exact:
  "vcs_Hessian_diag_adj_dbl exact_arith st irxn x = vcs_Hessian_diag_adj st irxn x"
  unfolding vcs_Hessian_diag_adj_dbl_def vcs_Hessian_diag_adj_def exact_arith_fields
    Hessian_actCoeff_diag_exact
  by (rule refl)

lemma clamp_product_bound:
  assumes "0 < ideal"
    and "accurate (1 / 100000) 0.6666 (dlit fp 0.6666)"
    and "accurate (1 / 100000) (dlit fp 0.6666 * ideal) (dmul fp (dlit fp 0.6666) ideal)"
  shows "dmul fp (dlit fp 0.6666) ideal \<le> (66662 / 100000) * ideal"
proof -
  define c where "c = dlit fp 0.6666"
  define t where "t = c * ideal"
  from accurate_lower [OF assms(2)] have c: "0 \<le> c" "c \<le> 666606666 / 1000000000"
    by (simp_all add: c_def)
  with assms(1) have t: "0 \<le> t" by (simp add: t_def)
  from c(2) assms(1) have tb: "t \<le> (666606666 / 1000000000) * ideal"
    unfolding t_def by (intro mult_right_mono) simp_all
  from accurate_lower(2) [OF assms(3) [folded c_def, folded t_def] t]
  have "dmul fp c ideal \<le> (100001 / 100000) * t" .
  with tb assms(1) have "dmul fp c ideal \<le> (66662 / 100000) * ideal" by linarith
  then show ?thesis by (simp only: c_def)
qed

text \<open>
  C1, as the code has it. The corrector computes in doubles. For every reaction and
  every ideal diagonal above zero, let the four rounded values of the call (the literal
  0.6666, the product of it with the ideal diagonal, the sum of the ideal diagonal and
  the activity coefficient term, the difference of the ideal diagonal and the product)
  be accurate to a relative error of \<open>1.0e-5\<close>, as the operations of binary64 are
  wherever the exact value lies in the normal range. Then the corrector returns a value,
  and that value is at least a third of the ideal diagonal, hence positive.
\<close>

theorem Hessian_diag_adj_lower_bound:
  assumes "0 < hessianDiag_Ideal"
    and "accurate (1 / 100000) 0.6666 (dlit fp 0.6666)"
    and "accurate (1 / 100000) (dlit fp 0.6666 * hessianDiag_Ideal)
           (dmul fp (dlit fp 0.6666) hessianDiag_Ideal)"
    and "accurate (1 / 100000) (hessianDiag_Ideal + vcs_Hessian_actCoeff_diag_dbl fp st irxn)
           (dadd fp hessianDiag_Ideal (vcs_Hessian_actCoeff_diag_dbl fp st irxn))"
    and "accurate (1 / 100000)
           (hessianDiag_Ideal - dmul fp (dlit fp 0.6666) hessianDiag_Ideal)
           (dsub fp hessianDiag_Ideal (dmul fp (dlit fp 0.6666) hessianDiag_Ideal))"
  shows "case vcs_Hessian_diag_adj_dbl fp st irxn hessianDiag_Ideal of
           Inl e \<Rightarrow> False
         | Inr d \<Rightarrow> (1 / 3) * hessianDiag_Ideal \<le> d \<and> 0 < d"
proof -
  let ?h = "vcs_Hessian_actCoeff_diag_dbl fp st irxn"
  let ?p = "dmul fp (dlit fp 0.6666) hessianDiag_Ideal"
  note pb = clamp_product_bound [OF assms(1,2,3)]
  consider (up) "0 \<le> ?h" | (small) "?h < 0" "\<bar>?h\<bar> < ?p" | (clamp) "?h < 0" "\<not> \<bar>?h\<bar> < ?p"
    by linarith
  then show ?thesis
  proof cases
    case up
    with assms(1) have "0 \<le> hessianDiag_Ideal + ?h" by simp
    from accurate_lower(1) [OF assms(4) this] up assms(1)
    have "(1 / 3) * hessianDiag_Ideal \<le> dadd fp hessianDiag_Ideal ?h
          \<and> 0 < dadd fp hessianDiag_Ideal ?h" by simp
    with up assms(1) show ?thesis by (simp add: vcs_Hessian_diag_adj_dbl_def Let_def)
  next
    case small
    with pb have s: "(33338 / 100000) * hessianDiag_Ideal \<le> hessianDiag_Ideal + ?h" by simp
    with assms(1) have "0 \<le> hessianDiag_Ideal + ?h" by simp
    from accurate_lower(1) [OF assms(4) this] s assms(1)
    have "(1 / 3) * hessianDiag_Ideal \<le> dadd fp hessianDiag_Ideal ?h
          \<and> 0 < dadd fp hessianDiag_Ideal ?h" by simp
    with small assms(1) show ?thesis by (simp add: vcs_Hessian_diag_adj_dbl_def Let_def)
  next
    case clamp
    from pb have s: "(33338 / 100000) * hessianDiag_Ideal \<le> hessianDiag_Ideal - ?p" by simp
    with assms(1) have "0 \<le> hessianDiag_Ideal - ?p" by simp
    from accurate_lower(1) [OF assms(5) this] s assms(1)
    have "(1 / 3) * hessianDiag_Ideal \<le> dsub fp hessianDiag_Ideal ?p
          \<and> 0 < dsub fp hessianDiag_Ideal ?p" by simp
    with clamp assms(1) show ?thesis by (simp add: vcs_Hessian_diag_adj_dbl_def Let_def)
  qed
qed

text \<open>
  In binary64, an ideal diagonal of 2 with the term -3: the clamped branch, every value
  in the normal range.
\<close>

theorem Hessian_diag_adj_lower_bound_witness:
  "(0::real) < 2
   \<and> (case vcs_Hessian_diag_adj_dbl binary64 (hess_state (- 3)) 0 2 of
         Inl e \<Rightarrow> False
       | Inr d \<Rightarrow> (1 / 3) * 2 \<le> d \<and> 0 < d)"
proof -
  have a2: "accurate (1 / 100000) 0.6666 (dlit binary64 0.6666)"
    unfolding binary64_fields by (rule binary64_accurate) (simp add: power_int_minus)
  have a3: "accurate (1 / 100000) (dlit binary64 0.6666 * 2) (dmul binary64 (dlit binary64 0.6666) 2)"
    unfolding binary64_fields
    by (rule binary64_accurate) (use b64_lit_6666(1) in \<open>simp add: power_int_minus\<close>)
  have a4: "accurate (1 / 100000) (2 + vcs_Hessian_actCoeff_diag_dbl binary64 (hess_state (- 3)) 0)
           (dadd binary64 2 (vcs_Hessian_actCoeff_diag_dbl binary64 (hess_state (- 3)) 0))"
    unfolding binary64_fields hess_state_actCoeff_dbl
    by (rule binary64_accurate) (simp add: power_int_minus)
  have "dmul binary64 (dlit binary64 0.6666) 2 \<le> (66662 / 100000) * 2"
    by (rule clamp_product_bound [OF _ a2 a3]) simp
  then have "2 powi (- 1022) \<le> \<bar>2 - dmul binary64 (dlit binary64 0.6666) 2\<bar>"
    by (simp add: power_int_minus)
  then have a5: "accurate (1 / 100000) (2 - dmul binary64 (dlit binary64 0.6666) 2)
           (dsub binary64 2 (dmul binary64 (dlit binary64 0.6666) 2))"
    unfolding binary64_fields by (rule binary64_accurate)
  have "(0::real) < 2" by simp
  from Hessian_diag_adj_lower_bound [OF this a2 a3 a4 a5] show ?thesis by simp
qed

text \<open>
  C1 as the claim words it fails in binary64 for an ideal diagonal among the smallest
  doubles. At \<open>2\<^sup>-\<^sup>1\<^sup>0\<^sup>7\<^sup>4\<close>, the least double above zero, with the term -1, the product
  with 0.6666 rounds to the ideal diagonal itself and the corrector returns 0. At four
  times that the product rounds to three quarters of it and the corrector returns a
  quarter of the ideal diagonal, below a third.
\<close>

theorem Hessian_subnormal_counterexample:
  "(0::real) < 2 powi (- 1074)
   \<and> vcs_Hessian_diag_adj_dbl binary64 (hess_state (- 1)) 0 (2 powi (- 1074)) = Inr 0
   \<and> vcs_Hessian_diag_adj_dbl binary64 (hess_state (- 1)) 0 (4 * 2 powi (- 1074))
       = Inr (2 powi (- 1074))
   \<and> (2::real) powi (- 1074) < (1 / 3) * (4 * 2 powi (- 1074))"
proof -
  define q :: real where "q = 2 powi (- 1074)"
  define c :: real where "c = b64 0.6666"
  have c: "0.6665 < c" "c < 0.6667" using b64_lit_6666 by (simp_all add: c_def)
  have qpos: "0 < q" by (simp add: q_def)
  have unit: "q * 2 ^ 1074 = 1" by (simp add: q_def power_int_minus)
  have tiny: "4 * q < 2 powi (- 1022)" by (simp add: q_def power_int_minus)
  have sub: "b64 (y * q) = of_int (round_even y) * q" if "\<bar>y\<bar> \<le> 4" for y
  proof -
    have "\<bar>y * q\<bar> \<le> 4 * q" using that qpos by (simp add: abs_mult)
    with tiny have "\<bar>y * q\<bar> < 2 powi (- 1022)" by simp
    from b64_subnormal [OF this] have "b64 (y * q) = of_int (round_even (y * (q * 2 ^ 1074))) * q"
      by (simp only: q_def mult.assoc)
    then show ?thesis by (simp only: unit mult_1_right)
  qed
  have r1: "round_even c = 1" using round_even_up [of 0 c] c by simp
  have r4: "round_even (c * 4) = 3" using round_even_up [of 2 "c * 4"] c by simp
  have r0: "round_even 0 = 0" and ru: "round_even 1 = 1" by (simp_all add: round_even_def)
  have p1: "b64 (c * q) = q" using sub [of c] c r1 by simp
  have p4: "b64 (c * (4 * q)) = 3 * q" using sub [of "c * 4"] c r4 by (simp add: mult.assoc)
  have d1: "b64 (q - q) = 0" using sub [of 0] r0 by simp
  have d4: "b64 (4 * q - 3 * q) = q" using sub [of 1] ru by simp
  have one: "\<not> \<bar>- 1 :: real\<bar> < q" "\<not> \<bar>- 1 :: real\<bar> < 3 * q"
    by (simp_all add: q_def power_int_minus)
  have e1: "vcs_Hessian_diag_adj_dbl binary64 (hess_state (- 1)) 0 q = Inr 0"
    unfolding vcs_Hessian_diag_adj_dbl_def Let_def hess_state_actCoeff_dbl binary64_fields
      c_def [symmetric] p1 d1
    using qpos one(1) by simp
  have e4: "vcs_Hessian_diag_adj_dbl binary64 (hess_state (- 1)) 0 (4 * q) = Inr q"
    unfolding vcs_Hessian_diag_adj_dbl_def Let_def hess_state_actCoeff_dbl binary64_fields
      c_def [symmetric] p4 d4
    using qpos one(2) by simp
  have "q < (1 / 3) * (4 * q)" using qpos by simp
  with qpos e1 e4 show ?thesis unfolding q_def by blast
qed

text \<open>
  C3, as the code has it. With \<open>h\<close> the activity coefficient term and an ideal
  diagonal above zero: the corrector returns the ideal diagonal plus \<open>h\<close> when \<open>h\<close> is
  not negative, and when \<open>h\<close> is negative with a magnitude below 0.6666 times the ideal
  diagonal; otherwise it returns the ideal diagonal minus 0.6666 times the ideal
  diagonal. The factor is the decimal 0.6666, not two thirds.
\<close>

theorem Hessian_diag_adj_branches:
  assumes "0 < hessianDiag_Ideal"
  shows "(0 \<le> vcs_Hessian_actCoeff_diag st irxn \<longrightarrow>
            vcs_Hessian_diag_adj st irxn hessianDiag_Ideal
              = Inr (hessianDiag_Ideal + vcs_Hessian_actCoeff_diag st irxn))
       \<and> (vcs_Hessian_actCoeff_diag st irxn < 0
            \<and> \<bar>vcs_Hessian_actCoeff_diag st irxn\<bar> < 0.6666 * hessianDiag_Ideal \<longrightarrow>
            vcs_Hessian_diag_adj st irxn hessianDiag_Ideal
              = Inr (hessianDiag_Ideal + vcs_Hessian_actCoeff_diag st irxn))
       \<and> (vcs_Hessian_actCoeff_diag st irxn < 0
            \<and> \<not> \<bar>vcs_Hessian_actCoeff_diag st irxn\<bar> < 0.6666 * hessianDiag_Ideal \<longrightarrow>
            vcs_Hessian_diag_adj st irxn hessianDiag_Ideal
              = Inr (hessianDiag_Ideal - 0.6666 * hessianDiag_Ideal))"
  using assms by (simp add: vcs_Hessian_diag_adj_def Let_def)

text \<open>The three branches, at an ideal diagonal of 2 and the terms 0.5, -1 and -3.\<close>

theorem Hessian_diag_adj_branches_witness:
  "vcs_Hessian_diag_adj (hess_state 0.5) 0 2 = Inr 2.5
   \<and> vcs_Hessian_diag_adj (hess_state (- 1)) 0 2 = Inr 1
   \<and> vcs_Hessian_diag_adj (hess_state (- 3)) 0 2 = Inr 0.6668"
  using Hessian_diag_adj_branches [of 2 "hess_state 0.5" 0]
        Hessian_diag_adj_branches [of 2 "hess_state (- 1)" 0]
        Hessian_diag_adj_branches [of 2 "hess_state (- 3)" 0]
  by (simp add: hess_state_actCoeff)

text \<open>
  C3 as the claim words it fails twice. At an ideal diagonal of 2 and the term -3 the
  last branch applies and the result is 0.6668, not 2 minus two thirds of 2. At an ideal
  diagonal of 3 and the term -1.9999 the magnitude is below two thirds of 3, yet the
  code takes the last branch and returns 1.0002, not 3 - 1.9999.
\<close>

theorem Hessian_two_thirds_counterexample:
  "vcs_Hessian_actCoeff_diag (hess_state (- 3)) 0 = - 3
   \<and> \<not> \<bar>- 3 :: real\<bar> < (2 / 3) * 2
   \<and> vcs_Hessian_diag_adj (hess_state (- 3)) 0 2 = Inr 0.6668
   \<and> vcs_Hessian_diag_adj (hess_state (- 3)) 0 2 \<noteq> Inr (2 - (2 / 3) * 2)
   \<and> vcs_Hessian_actCoeff_diag (hess_state (- 1.9999)) 0 = - 1.9999
   \<and> \<bar>- 1.9999 :: real\<bar> < (2 / 3) * 3
   \<and> vcs_Hessian_diag_adj (hess_state (- 1.9999)) 0 3 = Inr 1.0002
   \<and> vcs_Hessian_diag_adj (hess_state (- 1.9999)) 0 3 \<noteq> Inr (3 + (- 1.9999))"
  by (simp add: vcs_Hessian_diag_adj_def hess_state_actCoeff)

text \<open>
  C8. The corrector ends the process, with \<open>exit(-1)\<close>, exactly when the ideal diagonal
  is zero or below; it returns a value exactly when the ideal diagonal is above zero.
  There is no other outcome.
\<close>

theorem Hessian_diag_adj_abort_iff:
  "(vcs_Hessian_diag_adj st irxn hessianDiag_Ideal = Inl (ProcessExit (- 1)))
      = (hessianDiag_Ideal \<le> 0)
   \<and> isl (vcs_Hessian_diag_adj st irxn hessianDiag_Ideal) = (hessianDiag_Ideal \<le> 0)
   \<and> (\<exists>d. vcs_Hessian_diag_adj st irxn hessianDiag_Ideal = Inr d) = (0 < hessianDiag_Ideal)"
proof -
  let ?r = "vcs_Hessian_diag_adj st irxn hessianDiag_Ideal"
  have exit: "(?r = Inl (ProcessExit (- 1))) = (hessianDiag_Ideal \<le> 0)"
    by (simp add: vcs_Hessian_diag_adj_def Let_def)
  have left: "isl ?r = (hessianDiag_Ideal \<le> 0)"
    by (simp add: vcs_Hessian_diag_adj_def Let_def)
  have "(\<exists>d. ?r = Inr d) = (\<not> isl ?r)"
    by (cases ?r) simp_all
  with left have "(\<exists>d. ?r = Inr d) = (0 < hessianDiag_Ideal)"
    by (simp add: not_le)
  with exit left show ?thesis by blast
qed

text \<open>The ideal diagonals 0 and -1 end the process, the ideal diagonal 2 does not.\<close>

theorem Hessian_diag_adj_abort_iff_witness:
  "vcs_Hessian_diag_adj (hess_state 0.5) 0 0 = Inl (ProcessExit (- 1))
   \<and> vcs_Hessian_diag_adj (hess_state 0.5) 0 (- 1) = Inl (ProcessExit (- 1))
   \<and> \<not> isl (vcs_Hessian_diag_adj (hess_state 0.5) 0 2)"
  using Hessian_diag_adj_abort_iff [of "hess_state 0.5" 0 0]
        Hessian_diag_adj_abort_iff [of "hess_state 0.5" 0 "- 1"]
        Hessian_diag_adj_abort_iff [of "hess_state 0.5" 0 2]
  by simp

section \<open>The loop of the reaction adjustment\<close>

declare rxn_loop.simps [simp del]

text \<open>What an early return of the body tells about the state it started from.\<close>

lemma rxn_body_Return:
  assumes "rxn_body st k irxn = Return c st'"
  shows "degenerate st irxn"
    and "fst (elim_bound st irxn k) \<noteq> 0"
    and "c = (if snd (elim_bound st irxn k) \<noteq> ir st irxn then 2 else 1)"
    and "st' = elim_update st irxn (fst (elim_bound st irxn k)) (snd (elim_bound st irxn k))"
  using assms
  by (auto simp: rxn_body_def degenerate_def regular_def Let_def split: if_splits prod.splits)

lemma rxn_body_degenerate:
  assumes "degenerate st irxn"
  shows "rxn_body st k irxn =
    (if fst (elim_bound st irxn k) \<noteq> 0
     then Return (if snd (elim_bound st irxn k) \<noteq> ir st irxn then 2 else 1)
            (elim_update st irxn (fst (elim_bound st irxn k)) (snd (elim_bound st irxn k)))
     else Next st (snd (elim_bound st irxn k)))"
  using assms
  by (auto simp: rxn_body_def degenerate_def regular_def Let_def split: prod.splits)

text \<open>A pass that goes on to the next reaction writes three members at most.\<close>

lemma rxn_body_Next:
  assumes "rxn_body st k irxn = Next st' k'"
  shows "st' = st\<lparr>ds := ds st', spStatus := spStatus st',
                  m_numRxnMinorZeroed := m_numRxnMinorZeroed st'\<rparr>"
  using assms
  by (auto simp: rxn_body_def Let_def split: if_splits prod.splits)

lemma rxn_loop_Return:
  "irxn < m_numRxnRdc st \<Longrightarrow> rxn_body st k irxn = Return c st' \<Longrightarrow> rxn_loop irxn k st = (c, st')"
  by (subst rxn_loop.simps) simp

lemma rxn_loop_Next:
  "irxn < m_numRxnRdc st \<Longrightarrow> rxn_body st k irxn = Next st' k'
     \<Longrightarrow> rxn_loop irxn k st = rxn_loop (Suc irxn) k' st'"
  by (subst rxn_loop.simps) simp

lemma rxn_loop_end:
  "\<not> irxn < m_numRxnRdc st \<Longrightarrow> rxn_loop irxn k st = (0, st)"
  by (subst rxn_loop.simps) simp

text \<open>
  The loop ends in one of two ways: with 0 and a state that differs from the first in
  the three members only, or with 1 or 2 from an early return of some pass.
\<close>

lemma rxn_loop_outcome:
  "rxn_loop irxn k st = (c, st') \<Longrightarrow>
     (c = 0 \<and> st' = st\<lparr>ds := ds st', spStatus := spStatus st',
                          m_numRxnMinorZeroed := m_numRxnMinorZeroed st'\<rparr>)
     \<or> ((c = 1 \<or> c = 2) \<and> (\<exists>i k0 s0. irxn \<le> i \<and> i < m_numRxnRdc s0
            \<and> rxn_body s0 k0 i = Return c st'))"
proof (induction irxn k st rule: rxn_loop.induct)
  case (1 irxn k st)
  show ?case
  proof (cases "irxn < m_numRxnRdc st")
    case False
    with "1.prems" show ?thesis by (simp add: rxn_loop_end)
  next
    case True
    show ?thesis
    proof (cases "rxn_body st k irxn")
      case (Return c0 s0)
      with True "1.prems" have eq: "c = c0" "st' = s0" by (simp_all add: rxn_loop_Return)
      from rxn_body_Return(3) [OF Return] have "c0 = 1 \<or> c0 = 2" by (simp split: if_splits)
      with eq Return True show ?thesis by blast
    next
      case (Next s1 k1)
      with True "1.prems" have r: "rxn_loop (Suc irxn) k1 s1 = (c, st')"
        by (simp add: rxn_loop_Next)
      note fr = rxn_body_Next [OF Next]
      from "1.IH" [OF True Next r] show ?thesis
      proof
        assume a: "c = 0 \<and> st' = s1\<lparr>ds := ds st', spStatus := spStatus st',
                          m_numRxnMinorZeroed := m_numRxnMinorZeroed st'\<rparr>"
        then have "st' = st\<lparr>ds := ds st', spStatus := spStatus st',
                          m_numRxnMinorZeroed := m_numRxnMinorZeroed st'\<rparr>"
          by (subst (asm) fr) simp
        with a show ?thesis by blast
      next
        assume "(c = 1 \<or> c = 2) \<and> (\<exists>i k0 s0. Suc irxn \<le> i \<and> i < m_numRxnRdc s0
            \<and> rxn_body s0 k0 i = Return c st')"
        then show ?thesis using Suc_leD by blast
      qed
    qed
  qed
qed

section \<open>The searches of the degenerate branch\<close>

lemma scan_fold:
  "fold (scan c f) [0..<n] (d0, k0) = (d, k) \<Longrightarrow>
     d = Min (insert d0 (f ` {j. j < n \<and> c j}))
     \<and> (if d = d0 then k = k0 else first_min c f n d k)"
proof (induction n arbitrary: d k)
  case 0
  then show ?case by simp
next
  case (Suc n)
  obtain d1 k1 where p: "fold (scan c f) [0..<n] (d0, k0) = (d1, k1)"
    by (cases "fold (scan c f) [0..<n] (d0, k0)")
  from Suc.IH [OF p] have m: "d1 = Min (insert d0 (f ` {j. j < n \<and> c j}))"
    and t: "if d1 = d0 then k1 = k0 else first_min c f n d1 k1" by blast+
  have fin: "finite (insert d0 (f ` {j. j < n \<and> c j}))" by simp
  have le0: "d1 \<le> d0" using Min_le [OF fin, of d0] m by simp
  have lej: "d1 \<le> f j" if "j < n" "c j" for j
    using Min_le [OF fin, of "f j"] m that by simp
  have step: "(d, k) = scan c f n (d1, k1)"
    using Suc.prems p by simp
  show ?case
  proof (cases "c n")
    case False
    then have eq: "d = d1" "k = k1" using step by (simp_all add: scan_def)
    from False have "{j. j < Suc n \<and> c j} = {j. j < n \<and> c j}"
      by (auto simp: less_Suc_eq)
    then have "Min (insert d0 (f ` {j. j < Suc n \<and> c j})) = d" using m eq by simp
    moreover from t eq have "if d = d0 then k = k0 else first_min c f (Suc n) d k"
      by (auto simp: first_min_def less_Suc_eq)
    ultimately show ?thesis by simp
  next
    case True
    then have set: "{j. j < Suc n \<and> c j} = insert n {j. j < n \<and> c j}"
      by (auto simp: less_Suc_eq)
    have "insert d0 (f ` {j. j < Suc n \<and> c j})
            = insert (f n) (insert d0 (f ` {j. j < n \<and> c j}))"
      unfolding set by blast
    then have Min_eq: "Min (insert d0 (f ` {j. j < Suc n \<and> c j})) = min (f n) d1"
      using Min_insert [OF fin, of "f n"] m by simp
    show ?thesis
    proof (cases "f n < d1")
      case lt: True
      with True step have eq: "d = f n" "k = n" by (simp_all add: scan_def)
      from lt le0 have "d \<noteq> d0" using eq by simp
      moreover have "d < f j" if "j < n" "c j" for j
        using lej [OF that] lt eq by simp
      then have "first_min c f (Suc n) d k"
        using eq True by (simp add: first_min_def)
      moreover from lt eq have "min (f n) d1 = d" by (simp add: min_def)
      with Min_eq have "d = Min (insert d0 (f ` {j. j < Suc n \<and> c j}))" by simp
      ultimately show ?thesis by simp
    next
      case ge: False
      with True step have eq: "d = d1" "k = k1" by (simp_all add: scan_def)
      from t eq have tb: "if d = d0 then k = k0 else first_min c f (Suc n) d k"
        by (auto simp: first_min_def)
      from ge eq have "min (f n) d1 = d" by (simp add: min_def)
      with Min_eq have "d = Min (insert d0 (f ` {j. j < Suc n \<and> c j}))" by simp
      with tb show ?thesis by blast
    qed
  qed
qed

lemma bound_pos_scan:
  "bound_pos st irxn = scan (\<lambda>j. 0 < sc st irxn j) (\<lambda>j. soln st j / sc st irxn j)"
  by (rule ext)+ (simp add: bound_pos_def scan_def Let_def split: prod.splits)

lemma bound_neg_scan:
  "bound_neg st irxn = scan (\<lambda>j. sc st irxn j < 0) (\<lambda>j. - soln st j / sc st irxn j)"
  by (rule ext)+ (simp add: bound_neg_def scan_def Let_def split: prod.splits)

section \<open>The example states, field by field\<close>

lemma two_solids_fields:
  "m_numRxnRdc (two_solids n0 n1 c g) = 1"
  "m_numComponents (two_solids n0 n1 c g) = 1"
  "NPhase (two_solids n0 n1 c g) = 2"
  "ir (two_solids n0 n1 c g) = (\<lambda>_. 1)"
  "soln (two_solids n0 n1 c g) = (\<lambda>_. 0)(0 := n0, 1 := n1)"
  "ds (two_solids n0 n1 c g) = (\<lambda>_. 0)"
  "dg (two_solids n0 n1 c g) = (\<lambda>_. g)"
  "sc (two_solids n0 n1 c g) = (\<lambda>_ _. c)"
  "DnPhase (two_solids n0 n1 c g) = (\<lambda>_. (\<lambda>_. 0)(0 := c, 1 := 1))"
  "SSPhase (two_solids n0 n1 c g) = (\<lambda>_. True)"
  "SingleSpecies (two_solids n0 n1 c g) = (\<lambda>_. True)"
  "PhaseID (two_solids n0 n1 c g) = (\<lambda>i. i)"
  "TPhMoles (two_solids n0 n1 c g) = (\<lambda>_. 0)(0 := n0, 1 := n1)"
  "spStatus (two_solids n0 n1 c g) = (\<lambda>_. 1)"
  "tolmaj2 (two_solids n0 n1 c g) = 0.0001"
  "VCS_SPECIES_MINOR (two_solids n0 n1 c g) = 0"
  by (simp_all add: two_solids_def mk_state_def)

lemma solution_and_solids_fields:
  "m_numRxnRdc solution_and_solids = 2"
  "m_numComponents solution_and_solids = 2"
  "NPhase solution_and_solids = 3"
  "ir solution_and_solids = (\<lambda>_. 0)(0 := 2, 1 := 3)"
  "soln solution_and_solids = (\<lambda>_. 0)(0 := 1, 1 := 4, 2 := 5, 3 := 2)"
  "ds solution_and_solids = (\<lambda>_. 0)"
  "dg solution_and_solids = (\<lambda>_. 0)(0 := - 1, 1 := 0)"
  "sc solution_and_solids = (\<lambda>_ _. 0)(0 := (\<lambda>_. 0)(1 := 1))"
  "DnPhase solution_and_solids
     = (\<lambda>_ _. 0)(0 := (\<lambda>_. 0)(1 := 1, 2 := 1), 1 := (\<lambda>_. 0)(0 := 1))"
  "SSPhase solution_and_solids = (\<lambda>_. False)(1 := True, 2 := True)"
  "SingleSpecies solution_and_solids = (\<lambda>_. False)(1 := True, 2 := True)"
  "PhaseID solution_and_solids = (\<lambda>_. 0)(0 := 0, 1 := 1, 2 := 2, 3 := 0)"
  "TPhMoles solution_and_solids = (\<lambda>_. 0)(0 := 3, 1 := 4, 2 := 5)"
  "spStatus solution_and_solids = (\<lambda>_. 1)"
  "tolmaj2 solution_and_solids = 0.0001"
  "VCS_SPECIES_MINOR solution_and_solids = 0"
  by (simp_all add: solution_and_solids_def mk_state_def)

lemma two_solids_degenerate:
  "\<not> \<bar>g\<bar> \<le> 0.0001 \<Longrightarrow> degenerate (two_solids n0 n1 c g) 0"
  by (simp add: degenerate_def regular_def rxn_curvature_def two_solids_fields upt_rec)

lemma solution_and_solids_degenerate: "degenerate solution_and_solids 0"
  by (simp add: degenerate_def regular_def rxn_curvature_def SQUARE_def
        solution_and_solids_fields upt_rec)

section \<open>The extent of the degenerate branch\<close>

lemma elim_bound_pos:
  assumes "0 < dg st irxn"
  shows "fst (elim_bound st irxn k)
           = - Min (insert (soln st (ir st irxn))
                 ((\<lambda>j. soln st j / sc st irxn j) ` {j. j < m_numComponents st \<and> 0 < sc st irxn j}))"
    and "if - fst (elim_bound st irxn k) = soln st (ir st irxn)
         then snd (elim_bound st irxn k) = ir st irxn
         else first_min (\<lambda>j. 0 < sc st irxn j) (\<lambda>j. soln st j / sc st irxn j)
                (m_numComponents st) (- fst (elim_bound st irxn k)) (snd (elim_bound st irxn k))"
proof -
  obtain d k' where p: "fold (bound_pos st irxn) [0..<m_numComponents st]
                          (soln st (ir st irxn), ir st irxn) = (d, k')"
    by (cases "fold (bound_pos st irxn) [0..<m_numComponents st] (soln st (ir st irxn), ir st irxn)")
  with assms have e: "elim_bound st irxn k = (- d, k')"
    by (simp add: elim_bound_def Let_def)
  from p have "fold (scan (\<lambda>j. 0 < sc st irxn j) (\<lambda>j. soln st j / sc st irxn j))
                 [0..<m_numComponents st] (soln st (ir st irxn), ir st irxn) = (d, k')"
    by (simp add: bound_pos_scan)
  note s = scan_fold [OF this]
  from s have A: "d = Min (insert (soln st (ir st irxn))
                 ((\<lambda>j. soln st j / sc st irxn j) ` {j. j < m_numComponents st \<and> 0 < sc st irxn j}))"
    and B: "if d = soln st (ir st irxn) then k' = ir st irxn
            else first_min (\<lambda>j. 0 < sc st irxn j) (\<lambda>j. soln st j / sc st irxn j)
                   (m_numComponents st) d k'"
    by blast+
  from A show "fst (elim_bound st irxn k)
           = - Min (insert (soln st (ir st irxn))
                 ((\<lambda>j. soln st j / sc st irxn j) ` {j. j < m_numComponents st \<and> 0 < sc st irxn j}))"
    by (simp only: e fst_conv)
  from B show "if - fst (elim_bound st irxn k) = soln st (ir st irxn)
         then snd (elim_bound st irxn k) = ir st irxn
         else first_min (\<lambda>j. 0 < sc st irxn j) (\<lambda>j. soln st j / sc st irxn j)
                (m_numComponents st) (- fst (elim_bound st irxn k)) (snd (elim_bound st irxn k))"
    by (simp only: e fst_conv snd_conv minus_minus)
qed

lemma elim_bound_neg:
  assumes "\<not> 0 < dg st irxn"
  shows "fst (elim_bound st irxn k)
           = Min (insert 10000000000
                 ((\<lambda>j. - soln st j / sc st irxn j) ` {j. j < m_numComponents st \<and> sc st irxn j < 0}))"
    and "if fst (elim_bound st irxn k) = 10000000000
         then snd (elim_bound st irxn k) = k
         else first_min (\<lambda>j. sc st irxn j < 0) (\<lambda>j. - soln st j / sc st irxn j)
                (m_numComponents st) (fst (elim_bound st irxn k)) (snd (elim_bound st irxn k))"
proof -
  obtain d k' where p: "fold (bound_neg st irxn) [0..<m_numComponents st] (10000000000, k) = (d, k')"
    by (cases "fold (bound_neg st irxn) [0..<m_numComponents st] (10000000000, k)")
  with assms have e: "elim_bound st irxn k = (d, k')"
    by (simp add: elim_bound_def Let_def)
  from p have "fold (scan (\<lambda>j. sc st irxn j < 0) (\<lambda>j. - soln st j / sc st irxn j))
                 [0..<m_numComponents st] (10000000000, k) = (d, k')"
    by (simp add: bound_neg_scan)
  note s = scan_fold [OF this]
  from s have A: "d = Min (insert 10000000000
                 ((\<lambda>j. - soln st j / sc st irxn j) ` {j. j < m_numComponents st \<and> sc st irxn j < 0}))"
    and B: "if d = 10000000000 then k' = k
            else first_min (\<lambda>j. sc st irxn j < 0) (\<lambda>j. - soln st j / sc st irxn j)
                   (m_numComponents st) d k'"
    by blast+
  from A show "fst (elim_bound st irxn k)
           = Min (insert 10000000000
                 ((\<lambda>j. - soln st j / sc st irxn j) ` {j. j < m_numComponents st \<and> sc st irxn j < 0}))"
    by (simp only: e fst_conv)
  from B show "if fst (elim_bound st irxn k) = 10000000000
         then snd (elim_bound st irxn k) = k
         else first_min (\<lambda>j. sc st irxn j < 0) (\<lambda>j. - soln st j / sc st irxn j)
                (m_numComponents st) (fst (elim_bound st irxn k)) (snd (elim_bound st irxn k))"
    by (simp only: e fst_conv snd_conv)
qed

lemma two_solids_bound_pos:
  "0 < g \<Longrightarrow> 0 < c \<Longrightarrow>
     elim_bound (two_solids n0 n1 c g) 0 k = (if n0 / c < n1 then (- (n0 / c), 0) else (- n1, 1))"
  by (simp add: elim_bound_def bound_pos_def two_solids_fields upt_rec)

lemma two_solids_bound_neg:
  "\<not> 0 < g \<Longrightarrow> c < 0 \<Longrightarrow>
     elim_bound (two_solids n0 n1 c g) 0 k
       = (if - n0 / c < 10000000000 then (- n0 / c, 0) else (10000000000, k))"
  by (simp add: elim_bound_def bound_neg_def two_solids_fields upt_rec)

lemma two_solids_update:
  "soln (elim_update (two_solids n0 n1 c g) 0 dss k) = (\<lambda>_. 0)(1 := n1 + dss, 0 := n0 + dss * c, k := 0)"
  "TPhMoles (elim_update (two_solids n0 n1 c g) 0 dss k)
     = (\<lambda>_. 0)(1 := n1 + dss, 0 := n0 + dss * c, k := 0)"
  by (simp_all add: elim_update_def add_component_def Let_def two_solids_fields upt_rec)

text \<open>
  Where a component with a negative coefficient gives a bound below \<open>1.0e10\<close>, the
  search for a negative free energy change does what C4 says: the extent is the least
  bound and the species recorded is the first component that gives it.
\<close>

lemma elim_bound_neg_bounded:
  assumes "\<not> 0 < dg st irxn" and "j < m_numComponents st" and "sc st irxn j < 0"
    and "- soln st j / sc st irxn j < 10000000000"
  shows "fst (elim_bound st irxn k)
           = Min ((\<lambda>j. - soln st j / sc st irxn j) ` {j. j < m_numComponents st \<and> sc st irxn j < 0})"
    and "first_min (\<lambda>j. sc st irxn j < 0) (\<lambda>j. - soln st j / sc st irxn j)
           (m_numComponents st) (fst (elim_bound st irxn k)) (snd (elim_bound st irxn k))"
proof -
  let ?S = "(\<lambda>j. - soln st j / sc st irxn j) ` {j. j < m_numComponents st \<and> sc st irxn j < 0}"
  have fin: "finite ?S" by simp
  have mem: "- soln st j / sc st irxn j \<in> ?S" using assms(2,3) by blast
  then have ne: "?S \<noteq> {}" by blast
  from Min_le [OF fin mem] assms(4) have lt: "Min ?S < 10000000000" by simp
  have "Min (insert 10000000000 ?S) = min 10000000000 (Min ?S)"
    by (rule Min_insert [OF fin ne])
  with lt have m: "Min (insert 10000000000 ?S) = Min ?S" by simp
  from elim_bound_neg(1) [OF assms(1), of k] m
  show v: "fst (elim_bound st irxn k) = Min ?S" by simp
  from v lt have "fst (elim_bound st irxn k) \<noteq> 10000000000" by simp
  with elim_bound_neg(2) [OF assms(1), of k]
  show "first_min (\<lambda>j. sc st irxn j < 0) (\<lambda>j. - soln st j / sc st irxn j)
           (m_numComponents st) (fst (elim_bound st irxn k)) (snd (elim_bound st irxn k))"
    by simp
qed

text \<open>
  C4 at a state the code breaks it on. The one component has \<open>2.0e10\<close> moles and the
  coefficient -1, so the least bound is \<open>2.0e10\<close>. The search never accepts a bound that
  is not below its start value \<open>1.0e10\<close>: the extent is \<open>1.0e10\<close> and \<open>k\<close> stays at 0.
  The update leaves \<open>1.0e10\<close> moles of component 0 and then sets them to zero.
\<close>

theorem elim_bound_cap_at_failing_input:
  "dg (two_solids 20000000000 5 (- 1) (- 1)) 0 < 0
   \<and> degenerate (two_solids 20000000000 5 (- 1) (- 1)) 0
   \<and> Min ((\<lambda>j. - soln (two_solids 20000000000 5 (- 1) (- 1)) j
                   / sc (two_solids 20000000000 5 (- 1) (- 1)) 0 j)
            ` {j. j < m_numComponents (two_solids 20000000000 5 (- 1) (- 1))
                  \<and> sc (two_solids 20000000000 5 (- 1) (- 1)) 0 j < 0}) = 20000000000
   \<and> fst (elim_bound (two_solids 20000000000 5 (- 1) (- 1)) 0 0) = 10000000000
   \<and> fst (elim_bound (two_solids 20000000000 5 (- 1) (- 1)) 0 0)
       \<noteq> Min ((\<lambda>j. - soln (two_solids 20000000000 5 (- 1) (- 1)) j
                   / sc (two_solids 20000000000 5 (- 1) (- 1)) 0 j)
            ` {j. j < m_numComponents (two_solids 20000000000 5 (- 1) (- 1))
                  \<and> sc (two_solids 20000000000 5 (- 1) (- 1)) 0 j < 0})
   \<and> rxn_body (two_solids 20000000000 5 (- 1) (- 1)) 0 0
       = Return 2 (elim_update (two_solids 20000000000 5 (- 1) (- 1)) 0 10000000000 0)
   \<and> soln (two_solids 20000000000 5 (- 1) (- 1)) 0
         + 10000000000 * sc (two_solids 20000000000 5 (- 1) (- 1)) 0 0 = 10000000000
   \<and> soln (elim_update (two_solids 20000000000 5 (- 1) (- 1)) 0 10000000000 0) 0 = 0
   \<and> soln (elim_update (two_solids 20000000000 5 (- 1) (- 1)) 0 10000000000 0) 1
       = 10000000005"
proof -
  let ?S = "two_solids 20000000000 5 (- 1) (- 1)"
  have set: "{j. j < m_numComponents ?S \<and> sc ?S 0 j < 0} = {0}"
    by (auto simp: two_solids_fields)
  have m: "Min ((\<lambda>j. - soln ?S j / sc ?S 0 j) ` {j. j < m_numComponents ?S \<and> sc ?S 0 j < 0})
             = 20000000000"
    unfolding set by (simp add: two_solids_fields)
  have e: "elim_bound ?S 0 0 = (10000000000, 0)"
    by (simp add: two_solids_bound_neg)
  have d: "degenerate ?S 0" by (simp add: two_solids_degenerate)
  have r: "rxn_body ?S 0 0 = Return 2 (elim_update ?S 0 10000000000 0)"
    using d e by (simp add: rxn_body_degenerate two_solids_fields)
  have n: "dg ?S 0 < 0" by (simp add: two_solids_fields)
  have left: "soln ?S 0 + 10000000000 * sc ?S 0 0 = 10000000000"
    by (simp add: two_solids_fields)
  have after: "soln (elim_update ?S 0 10000000000 0) 0 = 0"
    "soln (elim_update ?S 0 10000000000 0) 1 = 10000000005"
    by (simp_all add: two_solids_update)
  from m e have "fst (elim_bound ?S 0 0)
      \<noteq> Min ((\<lambda>j. - soln ?S j / sc ?S 0 j) ` {j. j < m_numComponents ?S \<and> sc ?S 0 j < 0})"
    by simp
  with n d m e r left after show ?thesis by simp
qed

section \<open>The return code\<close>

text \<open>
  C2. A pass that takes the degenerate branch with a nonzero extent ends the function at
  once: the result is the updated state and the code 1 when the species set to zero is
  the species of the reaction, 2 when it is another one (a component). The function
  returns 0, 1 or 2; it returns 0 only when no pass applied the update (the mole numbers
  and the phase totals are those of the start), and 1 or 2 only from such a pass.
\<close>

theorem rxn_adj_cg_return_code:
  "(irxn < m_numRxnRdc st \<and> degenerate st irxn \<and> fst (elim_bound st irxn k) \<noteq> 0 \<longrightarrow>
      rxn_loop irxn k st
        = (if snd (elim_bound st irxn k) = ir st irxn then 1 else 2,
           elim_update st irxn (fst (elim_bound st irxn k)) (snd (elim_bound st irxn k))))
   \<and> (fst (vcs_rxn_adj_cg st) = 0 \<or> fst (vcs_rxn_adj_cg st) = 1 \<or> fst (vcs_rxn_adj_cg st) = 2)
   \<and> (fst (vcs_rxn_adj_cg st) = 0 \<longrightarrow>
        soln (snd (vcs_rxn_adj_cg st)) = soln st
        \<and> TPhMoles (snd (vcs_rxn_adj_cg st)) = TPhMoles st)
   \<and> (fst (vcs_rxn_adj_cg st) \<noteq> 0 \<longrightarrow>
        (\<exists>i k0 s0. i < m_numRxnRdc s0 \<and> degenerate s0 i \<and> fst (elim_bound s0 i k0) \<noteq> 0
           \<and> vcs_rxn_adj_cg st
               = (if snd (elim_bound s0 i k0) = ir s0 i then 1 else 2,
                  elim_update s0 i (fst (elim_bound s0 i k0)) (snd (elim_bound s0 i k0)))))"
proof -
  obtain c st' where r: "rxn_loop 0 0 st = (c, st')"
    by (cases "rxn_loop 0 0 st")
  then have v: "vcs_rxn_adj_cg st = (c, st')" by (simp add: vcs_rxn_adj_cg_def)
  note out = rxn_loop_outcome [OF r]
  have early: "rxn_loop irxn k st
        = (if snd (elim_bound st irxn k) = ir st irxn then 1 else 2,
           elim_update st irxn (fst (elim_bound st irxn k)) (snd (elim_bound st irxn k)))"
    if "irxn < m_numRxnRdc st" "degenerate st irxn" "fst (elim_bound st irxn k) \<noteq> 0"
  proof -
    from that(2,3) have "rxn_body st k irxn
        = Return (if snd (elim_bound st irxn k) = ir st irxn then 1 else 2)
            (elim_update st irxn (fst (elim_bound st irxn k)) (snd (elim_bound st irxn k)))"
      by (simp add: rxn_body_degenerate)
    from rxn_loop_Return [OF that(1) this] show ?thesis .
  qed
  have codes: "c = 0 \<or> c = 1 \<or> c = 2" using out by blast
  have zero: "soln st' = soln st \<and> TPhMoles st' = TPhMoles st" if "c = 0"
  proof -
    from out that have "st' = st\<lparr>ds := ds st', spStatus := spStatus st',
                          m_numRxnMinorZeroed := m_numRxnMinorZeroed st'\<rparr>" by simp
    then have "soln st' = soln (st\<lparr>ds := ds st', spStatus := spStatus st',
                          m_numRxnMinorZeroed := m_numRxnMinorZeroed st'\<rparr>)"
      and "TPhMoles st' = TPhMoles (st\<lparr>ds := ds st', spStatus := spStatus st',
                          m_numRxnMinorZeroed := m_numRxnMinorZeroed st'\<rparr>)"
      by simp_all
    then show ?thesis by simp
  qed
  have nonzero: "\<exists>i k0 s0. i < m_numRxnRdc s0 \<and> degenerate s0 i \<and> fst (elim_bound s0 i k0) \<noteq> 0
           \<and> (c, st')
               = (if snd (elim_bound s0 i k0) = ir s0 i then 1 else 2,
                  elim_update s0 i (fst (elim_bound s0 i k0)) (snd (elim_bound s0 i k0)))"
    if "c \<noteq> 0"
  proof -
    from out that obtain i k0 s0 where i: "i < m_numRxnRdc s0"
      and b: "rxn_body s0 k0 i = Return c st'" by blast
    note R = rxn_body_Return [OF b]
    from R(3) have "c = (if snd (elim_bound s0 i k0) = ir s0 i then 1 else 2)" by simp
    with i R(1,2,4) show ?thesis by blast
  qed
  from early codes zero nonzero show ?thesis unfolding v by simp
qed

lemma two_solids_run:
  "\<not> \<bar>g\<bar> \<le> 0.0001 \<Longrightarrow>
   vcs_rxn_adj_cg (two_solids n0 n1 c g) =
     (if fst (elim_bound (two_solids n0 n1 c g) 0 0) \<noteq> 0
      then (if snd (elim_bound (two_solids n0 n1 c g) 0 0) \<noteq> 1 then 2 else 1,
            elim_update (two_solids n0 n1 c g) 0 (fst (elim_bound (two_solids n0 n1 c g) 0 0))
              (snd (elim_bound (two_solids n0 n1 c g) 0 0)))
      else (0, two_solids n0 n1 c g))"
  unfolding vcs_rxn_adj_cg_def
  by (subst rxn_loop.simps)
     (simp add: rxn_body_degenerate two_solids_degenerate two_solids_fields rxn_loop_end)

text \<open>
  With 3 moles of the component, 5 of the species, the coefficient -1 and a negative
  free energy change: the species grows to 8 moles, the component is set to zero and the
  code is 2. With a positive free energy change and 2 moles the species is set to zero:
  code 1. With no moles of the species the extent is zero: code 0.
\<close>

theorem rxn_adj_cg_return_code_witness:
  "vcs_rxn_adj_cg (two_solids 3 5 (- 1) (- 1)) = (2, elim_update (two_solids 3 5 (- 1) (- 1)) 0 3 0)
   \<and> soln (snd (vcs_rxn_adj_cg (two_solids 3 5 (- 1) (- 1)))) 1 = 8
   \<and> soln (snd (vcs_rxn_adj_cg (two_solids 3 5 (- 1) (- 1)))) 0 = 0
   \<and> fst (vcs_rxn_adj_cg (two_solids 3 2 1 1)) = 1
   \<and> soln (snd (vcs_rxn_adj_cg (two_solids 3 2 1 1))) 1 = 0
   \<and> fst (vcs_rxn_adj_cg (two_solids 3 0 1 1)) = 0
   \<and> soln (snd (vcs_rxn_adj_cg (two_solids 3 0 1 1))) = soln (two_solids 3 0 1 1)
   \<and> TPhMoles (snd (vcs_rxn_adj_cg (two_solids 3 0 1 1))) = TPhMoles (two_solids 3 0 1 1)"
proof -
  have e1: "elim_bound (two_solids 3 5 (- 1) (- 1)) 0 0 = (3, 0)"
    and e2: "elim_bound (two_solids 3 2 1 1) 0 0 = (- 2, 1)"
    and e3: "elim_bound (two_solids 3 0 1 1) 0 0 = (0, 1)"
    by (simp_all add: two_solids_bound_pos two_solids_bound_neg)
  have d1: "degenerate (two_solids 3 5 (- 1) (- 1)) 0" by (simp add: two_solids_degenerate)
  have "0 < m_numRxnRdc (two_solids 3 5 (- 1) (- 1))" by (simp add: two_solids_fields)
  with rxn_adj_cg_return_code [of 0 "two_solids 3 5 (- 1) (- 1)" 0] d1 e1
  have r1: "vcs_rxn_adj_cg (two_solids 3 5 (- 1) (- 1))
             = (2, elim_update (two_solids 3 5 (- 1) (- 1)) 0 3 0)"
    by (simp add: vcs_rxn_adj_cg_def two_solids_fields)
  have r2: "vcs_rxn_adj_cg (two_solids 3 2 1 1) = (1, elim_update (two_solids 3 2 1 1) 0 (- 2) 1)"
    by (simp add: two_solids_run e2)
  have r3: "fst (vcs_rxn_adj_cg (two_solids 3 0 1 1)) = 0"
    by (simp add: two_solids_run e3)
  with rxn_adj_cg_return_code [of 0 "two_solids 3 0 1 1" 0]
  have f3: "soln (snd (vcs_rxn_adj_cg (two_solids 3 0 1 1))) = soln (two_solids 3 0 1 1)
            \<and> TPhMoles (snd (vcs_rxn_adj_cg (two_solids 3 0 1 1))) = TPhMoles (two_solids 3 0 1 1)"
    by blast
  from r1 r2 r3 f3 show ?thesis by (simp add: two_solids_update)
qed

section \<open>An extent of zero\<close>

text \<open>
  C9. When the degenerate branch computes an extent of exactly zero, the pass leaves the
  whole state as it found it: no mole number, no phase total and no entry of the step
  array is written, nothing is returned, and the loop goes on with the next reaction.
  Only the local \<open>k\<close> keeps the species the search recorded.
\<close>

theorem zero_extent_frame:
  assumes "degenerate st irxn" and "fst (elim_bound st irxn k) = 0"
  shows "rxn_body st k irxn = Next st (snd (elim_bound st irxn k))
         \<and> (irxn < m_numRxnRdc st \<longrightarrow>
              rxn_loop irxn k st = rxn_loop (Suc irxn) (snd (elim_bound st irxn k)) st)"
proof -
  from assms have b: "rxn_body st k irxn = Next st (snd (elim_bound st irxn k))"
    by (simp add: rxn_body_degenerate)
  then show ?thesis by (simp add: rxn_loop_Next)
qed

text \<open>The species of the reaction has no moles and the free energy change is positive.\<close>

theorem zero_extent_frame_witness:
  "degenerate (two_solids 3 0 1 1) 0
   \<and> fst (elim_bound (two_solids 3 0 1 1) 0 0) = 0
   \<and> rxn_body (two_solids 3 0 1 1) 0 0 = Next (two_solids 3 0 1 1) 1
   \<and> rxn_loop 0 0 (two_solids 3 0 1 1) = (0, two_solids 3 0 1 1)"
proof -
  have d: "degenerate (two_solids 3 0 1 1) 0" by (simp add: two_solids_degenerate)
  have e: "elim_bound (two_solids 3 0 1 1) 0 0 = (0, 1)" by (simp add: two_solids_bound_pos)
  then have z: "fst (elim_bound (two_solids 3 0 1 1) 0 0) = 0" by simp
  from zero_extent_frame [OF d z] e d z show ?thesis
    by (simp add: two_solids_fields rxn_loop_end)
qed

section \<open>The update of the degenerate branch\<close>

lemma no_negative_coefficient:
  "\<forall>j\<in>set js. \<not> sc st irxn j < 0 \<Longrightarrow> fold (bound_neg st irxn) js p = p"
  by (induction js arbitrary: p) (simp_all add: bound_neg_def split: prod.splits)

lemma add_component_fields:
  "ir (add_component irxn dss j st) = ir st"
  "sc (add_component irxn dss j st) = sc st"
  "PhaseID (add_component irxn dss j st) = PhaseID st"
  "ds (add_component irxn dss j st) = ds st"
  "m_numComponents (add_component irxn dss j st) = m_numComponents st"
  "NPhase (add_component irxn dss j st) = NPhase st"
  by (simp_all add: add_component_def Let_def)

lemma fold_add_component_fields:
  "ir (fold (add_component irxn dss) js st) = ir st"
  "sc (fold (add_component irxn dss) js st) = sc st"
  "PhaseID (fold (add_component irxn dss) js st) = PhaseID st"
  "ds (fold (add_component irxn dss) js st) = ds st"
  "m_numComponents (fold (add_component irxn dss) js st) = m_numComponents st"
  "NPhase (fold (add_component irxn dss) js st) = NPhase st"
  by (induction js arbitrary: st) (simp_all add: add_component_fields)

lemma fold_add_component_soln_other:
  "x \<notin> set js \<Longrightarrow> soln (fold (add_component irxn dss) js st) x = soln st x"
  by (induction js arbitrary: st) (simp_all add: add_component_def Let_def)

lemma elim_update_zeroed:
  "soln (elim_update st irxn dss k) k = 0"
  "TPhMoles (elim_update st irxn dss k) (PhaseID st k) = 0"
  by (simp_all add: elim_update_def Let_def fold_add_component_fields)

lemma elim_update_species:
  assumes "m_numComponents st \<le> ir st irxn" and "k \<noteq> ir st irxn"
  shows "soln (elim_update st irxn dss k) (ir st irxn) = soln st (ir st irxn) + dss"
proof -
  from assms(1) have "ir st irxn \<notin> set [0..<m_numComponents st]" by simp
  with assms(2) show ?thesis
    by (simp add: elim_update_def Let_def fold_add_component_soln_other)
qed

text \<open>
  C10. In the degenerate branch with a negative free energy change and no component with
  a negative coefficient, the search leaves \<open>dss\<close> at \<open>1.0e10\<close> and \<open>k\<close> at the value
  it came with: 0 for the first reaction of a call, the species an earlier pass recorded
  otherwise. The step \<open>1.0e10\<close> is applied, species \<open>k\<close> and its phase total are set
  to zero, and the function returns.
\<close>

theorem stale_species_zeroed:
  assumes "degenerate st irxn" and "dg st irxn < 0"
    and "\<forall>j<m_numComponents st. \<not> sc st irxn j < 0"
  shows "elim_bound st irxn k = (10000000000, k)
         \<and> rxn_body st k irxn
             = Return (if k \<noteq> ir st irxn then 2 else 1) (elim_update st irxn 10000000000 k)
         \<and> soln (elim_update st irxn 10000000000 k) k = 0
         \<and> TPhMoles (elim_update st irxn 10000000000 k) (PhaseID st k) = 0
         \<and> (m_numComponents st \<le> ir st irxn \<and> k \<noteq> ir st irxn \<longrightarrow>
              soln (elim_update st irxn 10000000000 k) (ir st irxn)
                = soln st (ir st irxn) + 10000000000)
         \<and> (irxn = 0 \<and> 0 < m_numRxnRdc st \<longrightarrow>
              vcs_rxn_adj_cg st
                = (if 0 \<noteq> ir st 0 then 2 else 1, elim_update st 0 10000000000 0))"
proof -
  from assms(3) have "\<forall>j\<in>set [0..<m_numComponents st]. \<not> sc st irxn j < 0" by simp
  from no_negative_coefficient [OF this] assms(2)
  have e: "elim_bound st irxn k' = (10000000000, k')" for k'
    by (simp add: elim_bound_def Let_def)
  have b: "rxn_body st k' irxn
             = Return (if k' \<noteq> ir st irxn then 2 else 1) (elim_update st irxn 10000000000 k')" for k'
    using assms(1) by (simp add: rxn_body_degenerate e)
  have "vcs_rxn_adj_cg st = (if 0 \<noteq> ir st 0 then 2 else 1, elim_update st 0 10000000000 0)"
    if "irxn = 0" "0 < m_numRxnRdc st"
    using rxn_loop_Return [OF that(2) b [of 0, unfolded that(1)]]
    by (simp add: vcs_rxn_adj_cg_def)
  with e b show ?thesis
    by (simp add: elim_update_zeroed elim_update_species)
qed

lemma three_solids_fields:
  "m_numRxnRdc three_solids = 2"
  "m_numComponents three_solids = 1"
  "NPhase three_solids = 3"
  "ir three_solids = (\<lambda>_. 0)(0 := 1, 1 := 2)"
  "soln three_solids = (\<lambda>_. 0)(0 := 1, 1 := 0, 2 := 5)"
  "ds three_solids = (\<lambda>_. 0)"
  "dg three_solids = (\<lambda>_. 0)(0 := 1, 1 := - 1)"
  "sc three_solids = (\<lambda>_ _. 0)(0 := (\<lambda>_. 0)(0 := - 1), 1 := (\<lambda>_. 0)(0 := 1))"
  "SSPhase three_solids = (\<lambda>_. True)"
  "SingleSpecies three_solids = (\<lambda>_. True)"
  "PhaseID three_solids = (\<lambda>i. i)"
  "TPhMoles three_solids = (\<lambda>_. 0)(0 := 1, 1 := 0, 2 := 5)"
  "spStatus three_solids = (\<lambda>_. 1)"
  "tolmaj2 three_solids = 0.0001"
  "VCS_SPECIES_MINOR three_solids = 0"
  by (simp_all add: three_solids_def mk_state_def)

lemma three_solids_degenerate: "degenerate three_solids 0" "degenerate three_solids 1"
  by (simp_all add: degenerate_def regular_def rxn_curvature_def three_solids_fields upt_rec)

lemma three_solids_first: "rxn_body three_solids 0 0 = Next three_solids 1"
  by (simp add: rxn_body_degenerate three_solids_degenerate elim_bound_def bound_pos_def
        three_solids_fields upt_rec)

text \<open>
  In the first state \<open>k\<close> is the 0 of the function entry: component 0, which takes no
  part in the reaction, is set to zero. In the second the first pass computes a zero
  extent and records species 1; the second pass then sets species 1 to zero.
\<close>

theorem stale_species_zeroed_witness:
  "degenerate solution_and_solids 0 \<and> dg solution_and_solids 0 < 0
   \<and> vcs_rxn_adj_cg solution_and_solids
       = (2, elim_update solution_and_solids 0 10000000000 0)
   \<and> soln (snd (vcs_rxn_adj_cg solution_and_solids)) 0 = 0
   \<and> soln (snd (vcs_rxn_adj_cg solution_and_solids)) 2 = 10000000005
   \<and> rxn_body three_solids 0 0 = Next three_solids 1
   \<and> rxn_body three_solids 1 1 = Return 2 (elim_update three_solids 1 10000000000 1)
   \<and> vcs_rxn_adj_cg three_solids = (2, elim_update three_solids 1 10000000000 1)
   \<and> soln (elim_update three_solids 1 10000000000 1) 1 = 0
   \<and> soln (elim_update three_solids 1 10000000000 1) 2 = 10000000005"
proof -
  have d: "degenerate solution_and_solids 0" by (rule solution_and_solids_degenerate)
  have g: "dg solution_and_solids 0 < 0" by (simp add: solution_and_solids_fields)
  have c: "\<forall>j<m_numComponents solution_and_solids. \<not> sc solution_and_solids 0 j < 0"
    by (simp add: solution_and_solids_fields)
  note A = stale_species_zeroed [OF d g c, of 0]
  have g3: "dg three_solids 1 < 0" by (simp add: three_solids_fields)
  have c3: "\<forall>j<m_numComponents three_solids. \<not> sc three_solids 1 j < 0"
    by (simp add: three_solids_fields)
  note B = stale_species_zeroed [OF three_solids_degenerate(2) g3 c3, of 1]
  from B have b: "rxn_body three_solids 1 1 = Return 2 (elim_update three_solids 1 10000000000 1)"
    by (simp add: three_solids_fields)
  have "rxn_loop 0 0 three_solids = rxn_loop 1 1 three_solids"
    using rxn_loop_Next [of 0 three_solids 0 three_solids 1] three_solids_first
    by (simp add: three_solids_fields)
  also have "\<dots> = (2, elim_update three_solids 1 10000000000 1)"
    using rxn_loop_Return [of 1 three_solids 1 2, OF _ b] by (simp add: three_solids_fields)
  finally have run: "vcs_rxn_adj_cg three_solids = (2, elim_update three_solids 1 10000000000 1)"
    by (simp add: vcs_rxn_adj_cg_def)
  from A have a: "vcs_rxn_adj_cg solution_and_solids
       = (2, elim_update solution_and_solids 0 10000000000 0)"
    and a0: "soln (elim_update solution_and_solids 0 10000000000 0) 0 = 0"
    and a2: "soln (elim_update solution_and_solids 0 10000000000 0) 2 = 10000000005"
    by (simp_all add: solution_and_solids_fields)
  from B have b1: "soln (elim_update three_solids 1 10000000000 1) 1 = 0"
    and b2: "soln (elim_update three_solids 1 10000000000 1) 2 = 10000000005"
    by (simp_all add: three_solids_fields)
  from d g a a0 a2 three_solids_first b run b1 b2 show ?thesis by simp
qed

section \<open>The converged reactions\<close>

lemma rxn_body_converged:
  "regular st irxn \<Longrightarrow> \<bar>dg st irxn\<bar> \<le> tolmaj2 st \<Longrightarrow> rxn_body st k irxn = Next st k"
  by (auto simp: rxn_body_def regular_def Let_def)

lemma rxn_body_ds_other:
  "rxn_body st k irxn = Next st' k' \<Longrightarrow> x \<noteq> ir st irxn \<Longrightarrow> ds st' x = ds st x"
  by (auto simp: rxn_body_def Let_def split: if_splits prod.splits)

lemma elim_update_ds: "ds (elim_update st irxn dss k) = ds st"
  by (simp add: elim_update_def Let_def fold_add_component_fields)

lemma rxn_loop_ds_converged:
  assumes "\<forall>i. irxn \<le> i \<and> i < m_numRxnRdc st \<and> ir st i = x
               \<longrightarrow> regular st i \<and> \<bar>dg st i\<bar> \<le> tolmaj2 st"
  shows "ds (snd (rxn_loop irxn k st)) x = ds st x"
  using assms
proof (induction irxn k st rule: rxn_loop.induct)
  case (1 irxn k st)
  show ?case
  proof (cases "irxn < m_numRxnRdc st")
    case False
    then show ?thesis by (simp add: rxn_loop_end)
  next
    case True
    show ?thesis
    proof (cases "rxn_body st k irxn")
      case (Return c s0)
      from rxn_body_Return(4) [OF Return] have "ds s0 = ds st" by (simp add: elim_update_ds)
      with True Return show ?thesis by (simp add: rxn_loop_Return)
    next
      case (Next s1 k1)
      note fr = rxn_body_Next [OF Next]
      have keep: "ir s1 = ir st" "dg s1 = dg st" "tolmaj2 s1 = tolmaj2 st"
        "m_numRxnRdc s1 = m_numRxnRdc st" "soln s1 = soln st" "SSPhase s1 = SSPhase st"
        by (subst fr, simp)+
      have here: "ds s1 x = ds st x"
      proof (cases "ir st irxn = x")
        case True
        with "1.prems" \<open>irxn < m_numRxnRdc st\<close>
        have "regular st irxn \<and> \<bar>dg st irxn\<bar> \<le> tolmaj2 st" by blast
        then have "rxn_body st k irxn = Next st k" by (simp add: rxn_body_converged)
        with Next show ?thesis by simp
      next
        case False
        then show ?thesis using rxn_body_ds_other [OF Next, of x] by simp
      qed
      have reg: "regular s1 i = regular st i" for i
        by (simp add: regular_def keep)
      have "\<forall>i. Suc irxn \<le> i \<and> i < m_numRxnRdc st \<and> ir st i = x
               \<longrightarrow> regular st i \<and> \<bar>dg st i\<bar> \<le> tolmaj2 st"
        using "1.prems" Suc_leD by blast
      then have "\<forall>i. Suc irxn \<le> i \<and> i < m_numRxnRdc s1 \<and> ir s1 i = x
               \<longrightarrow> regular s1 i \<and> \<bar>dg s1 i\<bar> \<le> tolmaj2 s1"
        by (simp only: keep reg)
      from "1.IH" [OF True Next this] have "ds (snd (rxn_loop (Suc irxn) k1 s1)) x = ds s1 x" .
      with here True Next show ?thesis by (simp add: rxn_loop_Next)
    qed
  qed
qed

text \<open>
  C7, as the code has it. The branch that skips a converged reaction writes nothing. Let
  every reaction of species \<open>x\<close> reach the regular processing (the species is not a
  species without moles in a solution phase) with a free energy change inside the
  tolerance. Then each of their passes leaves the state as it found it, a call leaves
  \<open>ds[x]\<close> at the value it had on entry, and so does a second call after a first one
  that returned 0. The step is zero afterwards when it was zero before.
\<close>

theorem converged_step_unchanged:
  assumes "\<forall>i<m_numRxnRdc st. ir st i = x \<longrightarrow> regular st i \<and> \<bar>dg st i\<bar> \<le> tolmaj2 st"
  shows "(\<forall>i<m_numRxnRdc st. ir st i = x \<longrightarrow> (\<forall>k. rxn_body st k i = Next st k))
         \<and> ds (snd (vcs_rxn_adj_cg st)) x = ds st x
         \<and> (fst (vcs_rxn_adj_cg st) = 0 \<longrightarrow>
              ds (snd (vcs_rxn_adj_cg (snd (vcs_rxn_adj_cg st)))) x = ds st x)"
proof -
  have body: "\<forall>i<m_numRxnRdc st. ir st i = x \<longrightarrow> (\<forall>k. rxn_body st k i = Next st k)"
    using assms by (simp add: rxn_body_converged)
  have once: "ds (snd (vcs_rxn_adj_cg st)) x = ds st x"
    unfolding vcs_rxn_adj_cg_def using assms by (intro rxn_loop_ds_converged) blast
  have twice: "ds (snd (vcs_rxn_adj_cg (snd (vcs_rxn_adj_cg st)))) x = ds st x"
    if z: "fst (vcs_rxn_adj_cg st) = 0"
  proof -
    obtain c st' where r: "rxn_loop 0 0 st = (c, st')" by (cases "rxn_loop 0 0 st")
    with z have c: "c = 0" by (simp add: vcs_rxn_adj_cg_def)
    from rxn_loop_outcome [OF r] c
    have fr: "st' = st\<lparr>ds := ds st', spStatus := spStatus st',
                          m_numRxnMinorZeroed := m_numRxnMinorZeroed st'\<rparr>" by simp
    have keep: "ir st' = ir st" "dg st' = dg st" "tolmaj2 st' = tolmaj2 st"
        "m_numRxnRdc st' = m_numRxnRdc st" "soln st' = soln st" "SSPhase st' = SSPhase st"
      by (subst fr, simp)+
    have reg: "regular st' i = regular st i" for i
      by (simp add: regular_def keep)
    have "\<forall>i. 0 \<le> i \<and> i < m_numRxnRdc st \<and> ir st i = x
               \<longrightarrow> regular st i \<and> \<bar>dg st i\<bar> \<le> tolmaj2 st"
      using assms by blast
    then have "\<forall>i. 0 \<le> i \<and> i < m_numRxnRdc st' \<and> ir st' i = x
               \<longrightarrow> regular st' i \<and> \<bar>dg st' i\<bar> \<le> tolmaj2 st'"
      by (simp only: keep reg)
    from rxn_loop_ds_converged [OF this]
    have "ds (snd (vcs_rxn_adj_cg st')) x = ds st' x" by (simp add: vcs_rxn_adj_cg_def)
    moreover from r have "snd (vcs_rxn_adj_cg st) = st'" by (simp add: vcs_rxn_adj_cg_def)
    ultimately show ?thesis using once by simp
  qed
  from body once twice show ?thesis by blast
qed

lemma converged_solids_run: "vcs_rxn_adj_cg (converged_solids d) = (0, converged_solids d)"
proof -
  have "rxn_body (converged_solids d) 0 0 = Next (converged_solids d) 0"
    by (simp add: rxn_body_converged regular_def converged_solids_def two_solids_fields)
  then have "rxn_loop 0 0 (converged_solids d) = rxn_loop 1 0 (converged_solids d)"
    using rxn_loop_Next [of 0 "converged_solids d" 0 "converged_solids d" 0]
    by (simp add: converged_solids_def two_solids_fields)
  also have "\<dots> = (0, converged_solids d)"
    by (simp add: rxn_loop_end converged_solids_def two_solids_fields)
  finally show ?thesis by (simp add: vcs_rxn_adj_cg_def)
qed

lemma dead_species_run: "ds (snd (vcs_rxn_adj_cg dead_species)) 1 = 0.0000000001"
proof -
  let ?s1 = "dead_species\<lparr>ds := (ds dead_species)(1 := 0.0000000001),
               spStatus := (spStatus dead_species)(0 := VCS_SPECIES_MAJOR dead_species),
               m_numRxnMinorZeroed := m_numRxnMinorZeroed dead_species - 1\<rparr>"
  have b: "rxn_body dead_species 0 0 = Next ?s1 0"
    by (simp add: rxn_body_def dead_species_def two_solids_fields)
  have n: "0 < m_numRxnRdc dead_species" by (simp add: dead_species_def two_solids_fields)
  have "rxn_loop 0 0 dead_species = rxn_loop 1 0 ?s1"
    using rxn_loop_Next [OF n b] by simp
  also have "\<dots> = (0, ?s1)"
    by (simp add: rxn_loop_end dead_species_def two_solids_fields)
  finally show ?thesis by (simp add: vcs_rxn_adj_cg_def)
qed

text \<open>The converged reaction of the two solids, with a step array of zeros.\<close>

theorem converged_step_unchanged_witness:
  "regular (converged_solids 0) 0
   \<and> \<bar>dg (converged_solids 0) 0\<bar> \<le> tolmaj2 (converged_solids 0)
   \<and> ds (converged_solids 0) 1 = 0
   \<and> fst (vcs_rxn_adj_cg (converged_solids 0)) = 0
   \<and> ds (snd (vcs_rxn_adj_cg (converged_solids 0))) 1 = 0
   \<and> ds (snd (vcs_rxn_adj_cg (snd (vcs_rxn_adj_cg (converged_solids 0))))) 1 = 0"
proof -
  have r: "regular (converged_solids 0) 0"
    and g: "\<bar>dg (converged_solids 0) 0\<bar> \<le> tolmaj2 (converged_solids 0)"
    and z: "ds (converged_solids 0) 1 = 0"
    by (simp_all add: regular_def converged_solids_def two_solids_fields)
  have n: "m_numRxnRdc (converged_solids 0) = 1"
    by (simp add: converged_solids_def two_solids_fields)
  have h: "\<forall>i<m_numRxnRdc (converged_solids 0). ir (converged_solids 0) i = 1
            \<longrightarrow> regular (converged_solids 0) i
                \<and> \<bar>dg (converged_solids 0) i\<bar> \<le> tolmaj2 (converged_solids 0)"
    using r g by (simp add: n)
  have c: "fst (vcs_rxn_adj_cg (converged_solids 0)) = 0" by (simp add: converged_solids_run)
  from converged_step_unchanged [OF h] c z r g show ?thesis by simp
qed

text \<open>
  C7 as the claim words it fails. With 5 in the step array on entry the converged
  reaction has the step 5 after the first call and after the second. And a species
  without moles in a solution phase is handled before the test of convergence: with a
  free energy change of \<open>-5.0e-4\<close> inside a tolerance of \<open>1.0e-3\<close> it gets the step
  \<open>1.0e-10\<close>, from a step array of zeros.
\<close>

theorem converged_step_counterexample:
  "\<bar>dg (converged_solids 5) 0\<bar> \<le> tolmaj2 (converged_solids 5)
   \<and> ir (converged_solids 5) 0 = 1
   \<and> ds (snd (vcs_rxn_adj_cg (converged_solids 5))) 1 = 5
   \<and> ds (snd (vcs_rxn_adj_cg (snd (vcs_rxn_adj_cg (converged_solids 5))))) 1 = 5
   \<and> \<bar>dg dead_species 0\<bar> \<le> tolmaj2 dead_species
   \<and> ir dead_species 0 = 1
   \<and> ds dead_species 1 = 0
   \<and> ds (snd (vcs_rxn_adj_cg dead_species)) 1 = 0.0000000001"
proof -
  have a: "\<bar>dg (converged_solids 5) 0\<bar> \<le> tolmaj2 (converged_solids 5)"
    and b: "ir (converged_solids 5) 0 = 1"
    and c: "ds (converged_solids 5) 1 = 5"
    by (simp_all add: converged_solids_def two_solids_fields)
  have d: "\<bar>dg dead_species 0\<bar> \<le> tolmaj2 dead_species"
    and e: "ir dead_species 0 = 1"
    and f: "ds dead_species 1 = 0"
    by (simp_all add: dead_species_def two_solids_fields)
  have "ds (snd (vcs_rxn_adj_cg (converged_solids 5))) 1 = 5"
    and "ds (snd (vcs_rxn_adj_cg (snd (vcs_rxn_adj_cg (converged_solids 5))))) 1 = 5"
    using c by (simp_all only: converged_solids_run snd_conv)
  with a b d e f dead_species_run show ?thesis by blast
qed

section \<open>The line search\<close>

text \<open>
  C6, as the code has it. The search computes in doubles. Let the proposed step run
  against the sign of the free energy change at the base point, so that the search does
  not reject it at once. Let the product of the free energy change at the full step
  with the base value, as the doubles give it, be below zero (the two differ in sign
  and the product does not round to zero), and let the magnitude at the full step be
  below \<open>0.8 * (fabs(deltaGOrig) + 1.0E-15)\<close>, as the doubles give it. Then the search
  returns \<open>-deltaGOrig / slope\<close> with \<open>slope = (deltaG1 - deltaGOrig) / dx_orig\<close>, each
  of them as the doubles give it; for the values 1.0 and -0.5, whose difference -1.5
  is exact, that is \<open>-1.0 / (-1.5 / dx_orig)\<close>.
\<close>

theorem line_search_interpolation:
  assumes "(0 < fst (deltaG_base fp cp st irxn) \<and> dx_orig < 0)
         \<or> (fst (deltaG_base fp cp st irxn) < 0 \<and> 0 < dx_orig)"
    and "dmul fp (fst (deltaG_full fp cp (snd (deltaG_base fp cp st irxn)) irxn dx_orig))
           (fst (deltaG_base fp cp st irxn)) < 0"
    and "\<bar>fst (deltaG_full fp cp (snd (deltaG_base fp cp st irxn)) irxn dx_orig)\<bar>
           < dmul fp (dlit fp 0.8)
               (dadd fp \<bar>fst (deltaG_base fp cp st irxn)\<bar> (dlit fp 0.000000000000001))"
  shows "fst (vcs_line_search fp cp st irxn dx_orig)
           = ddiv fp (- fst (deltaG_base fp cp st irxn))
               (ddiv fp
                  (dsub fp (fst (deltaG_full fp cp (snd (deltaG_base fp cp st irxn)) irxn dx_orig))
                     (fst (deltaG_base fp cp st irxn)))
                  dx_orig)
         \<and> (fst (deltaG_base fp cp st irxn) = 1.0
              \<and> fst (deltaG_full fp cp (snd (deltaG_base fp cp st irxn)) irxn dx_orig) = - 0.5
              \<and> dsub fp (- 0.5) 1.0 = - 1.5
              \<longrightarrow> fst (vcs_line_search fp cp st irxn dx_orig)
                    = ddiv fp (- 1.0) (ddiv fp (- 1.5) dx_orig))"
proof -
  obtain g0 st0 where b: "deltaG_base fp cp st irxn = (g0, st0)"
    by (cases "deltaG_base fp cp st irxn")
  obtain g1 st1 where f: "deltaG_full fp cp st0 irxn dx_orig = (g1, st1)"
    by (cases "deltaG_full fp cp st0 irxn dx_orig")
  from assms b f have dir: "(0 < g0 \<and> dx_orig < 0) \<or> (g0 < 0 \<and> 0 < dx_orig)"
    and opp: "dmul fp g1 g0 < 0"
    and thr: "\<bar>g1\<bar> < dmul fp (dlit fp 0.8) (dadd fp \<bar>g0\<bar> (dlit fp 0.000000000000001))"
    by simp_all
  from opp have notpos: "\<not> 0 < dmul fp g1 g0" by simp
  from dir have nz: "dx_orig \<noteq> 0" by auto
  have res: "vcs_line_search fp cp st irxn dx_orig
               = (ddiv fp (- g0) (ddiv fp (dsub fp g1 g0) dx_orig), st1)"
    using dir
  proof
    assume "0 < g0 \<and> dx_orig < 0"
    then show ?thesis using thr opp notpos nz
      by (simp add: vcs_line_search_def b f Let_def)
  next
    assume "g0 < 0 \<and> 0 < dx_orig"
    then show ?thesis using thr opp notpos nz
      by (simp add: vcs_line_search_def b f Let_def)
  qed
  with b f show ?thesis by auto
qed

lemma one_species_fields:
  "m_numComponents (one_species n) = 0"
  "m_numSpeciesRdc (one_species n) = 1"
  "NPhase (one_species n) = 1"
  "ir (one_species n) = (\<lambda>_. 0)"
  "soln (one_species n) = (\<lambda>_. n)"
  "PhaseParticipation (one_species n) = (\<lambda>_ _. 1)"
  by (simp_all add: one_species_def mk_state_def)

lemma one_species_base:
  "fst (deltaG_base fp (linear_potential a b) (one_species n) 0) = a + b * n"
  by (simp add: deltaG_base_def deltaG_Recalc_Rxn_def linear_potential_def
        one_species_fields upt_rec split: prod.splits)

lemma one_species_full:
  "fst (deltaG_full fp (linear_potential a b)
          (snd (deltaG_base fp (linear_potential a b) (one_species n) 0)) 0 dx)
     = a + b * dadd fp n dx"
  by (simp add: deltaG_full_def deltaG_trial_def deltaG_base_def deltaG_Recalc_Rxn_def
        trial_molNum_def vcs_dcopy_def linear_potential_def one_species_fields upt_rec
        split: prod.splits)

lemma line_search_rejected:
  assumes "0 < fst (deltaG_base fp cp st irxn)" and "0 < dx_orig"
  shows "fst (vcs_line_search fp cp st irxn dx_orig) = 0"
proof -
  obtain g0 st0 where b: "deltaG_base fp cp st irxn = (g0, st0)"
    by (cases "deltaG_base fp cp st irxn")
  with assms show ?thesis by (simp add: vcs_line_search_def Let_def)
qed

lemma threshold_above_half:
  "1 / 2 < dmul binary64 (dlit binary64 0.8) (dadd binary64 \<bar>1\<bar> (dlit binary64 0.000000000000001))"
proof -
  define e where "e = b64 0.000000000000001"
  define c where "c = b64 0.8"
  define f where "f = b64 (\<bar>1\<bar> + e)"
  have "accurate (1 / 100000) 0.000000000000001 e" unfolding e_def
    by (rule binary64_accurate) (simp add: power_int_minus)
  from accurate_lower(1) [OF this] have e: "0 \<le> e" by simp
  have "accurate (1 / 100000) 0.8 c" unfolding c_def
    by (rule binary64_accurate) (simp add: power_int_minus)
  from accurate_lower(1) [OF this] have c: "0.79 \<le> c" by simp
  have "accurate (1 / 100000) (\<bar>1\<bar> + e) f" unfolding f_def
    by (rule binary64_accurate) (use e in \<open>simp add: power_int_minus\<close>)
  from accurate_lower(1) [OF this] e have f: "0.99 \<le> f" by simp
  from c f have cf: "0.79 * 0.99 \<le> c * f" by (intro mult_mono) simp_all
  then have "accurate (1 / 100000) (c * f) (b64 (c * f))"
    by (intro binary64_accurate) (simp add: power_int_minus)
  from accurate_lower(1) [OF this] cf have "1 / 2 < b64 (c * f)" by simp
  then show ?thesis by (simp only: binary64_fields c_def f_def e_def)
qed

text \<open>
  In binary64: one species with 2 moles, a potential rising from -0.5 to 1.0 over the
  step -1.5. Every value of the run is a double, and the search returns -1, which is
  \<open>dx_orig / 1.5\<close>.
\<close>

theorem line_search_interpolation_witness:
  "fst (deltaG_base binary64 (linear_potential (- 1) 1) (one_species 2) 0) = 1.0
   \<and> fst (deltaG_full binary64 (linear_potential (- 1) 1)
            (snd (deltaG_base binary64 (linear_potential (- 1) 1) (one_species 2) 0)) 0 (- 1.5))
       = - 0.5
   \<and> fst (vcs_line_search binary64 (linear_potential (- 1) 1) (one_species 2) 0 (- 1.5)) = - 1
   \<and> (- 1 :: real) = (- 1.5) / 1.5"
proof -
  let ?cp = "linear_potential (- 1) 1"
  let ?g0 = "fst (deltaG_base binary64 ?cp (one_species 2) 0)"
  let ?g1 = "fst (deltaG_full binary64 ?cp (snd (deltaG_base binary64 ?cp (one_species 2) 0)) 0 (- 1.5))"
  have g0: "?g0 = 1.0" by (simp add: one_species_base)
  have "b64 (2 + - 1.5) = 1 / 2" using b64_values(4) by simp
  then have g1: "?g1 = - 0.5" by (simp add: one_species_full binary64_fields)
  have dir: "(0 < ?g0 \<and> (- 1.5 :: real) < 0) \<or> (?g0 < 0 \<and> 0 < (- 1.5 :: real))"
    unfolding g0 by simp
  have "b64 (- 0.5 * 1.0) = - (1 / 2)" using b64_values(5) by simp
  then have opp: "dmul binary64 ?g1 ?g0 < 0" unfolding g0 g1 binary64_fields by simp
  have thr: "\<bar>?g1\<bar> < dmul binary64 (dlit binary64 0.8)
               (dadd binary64 \<bar>?g0\<bar> (dlit binary64 0.000000000000001))"
    unfolding g0 g1 using threshold_above_half by simp
  have sub: "dsub binary64 (- 0.5) 1.0 = - 1.5"
    using b64_values(6) by (simp add: binary64_fields)
  from line_search_interpolation [OF dir opp thr] g0 g1 sub
  have "fst (vcs_line_search binary64 ?cp (one_species 2) 0 (- 1.5))
          = ddiv binary64 (- 1.0) (ddiv binary64 (- 1.5) (- 1.5))" by blast
  also have "\<dots> = - 1" using b64_values(1,2) by (simp add: binary64_fields)
  finally show ?thesis using g0 g1 by simp
qed

text \<open>
  C6 as the claim words it fails for a step of the sign of the base value. With the base
  value 1.0, the value -0.5 at the full step and the step +1 the search returns 0: the
  first test rejects the step before the full step is looked at.
\<close>

theorem line_search_rejected_counterexample:
  "fst (deltaG_base binary64 (linear_potential 2.5 (- 1.5)) (one_species 1) 0) = 1.0
   \<and> fst (deltaG_full binary64 (linear_potential 2.5 (- 1.5))
            (snd (deltaG_base binary64 (linear_potential 2.5 (- 1.5)) (one_species 1) 0)) 0 1)
       = - 0.5
   \<and> \<bar>- 0.5 :: real\<bar> < 0.8 * \<bar>1.0\<bar>
   \<and> (- 0.5 :: real) * 1.0 < 0
   \<and> fst (vcs_line_search binary64 (linear_potential 2.5 (- 1.5)) (one_species 1) 0 1) = 0
   \<and> fst (vcs_line_search binary64 (linear_potential 2.5 (- 1.5)) (one_species 1) 0 1)
        \<noteq> - 1.0 / ((- 0.5 - 1.0) / 1)
   \<and> fst (vcs_line_search binary64 (linear_potential 2.5 (- 1.5)) (one_species 1) 0 1) \<noteq> 1 / 1.5"
proof -
  let ?cp = "linear_potential 2.5 (- 1.5)"
  have g0: "fst (deltaG_base binary64 ?cp (one_species 1) 0) = 1.0"
    by (simp add: one_species_base)
  have g1: "fst (deltaG_full binary64 ?cp (snd (deltaG_base binary64 ?cp (one_species 1) 0)) 0 1) = - 0.5"
    using b64_values(3) by (simp add: one_species_full binary64_fields)
  have p: "0 < fst (deltaG_base binary64 ?cp (one_species 1) 0)"
    by (simp add: one_species_base)
  have r: "fst (vcs_line_search binary64 ?cp (one_species 1) 0 1) = 0"
    using line_search_rejected [OF p, of 1] by simp
  from g0 g1 r show ?thesis by simp
qed

text \<open>
  Where the product of the two values rounds to zero the last test fails and the search
  returns the full step. In binary64 that happens to the product of \<open>- (2 powi (- 601))\<close> and
  \<open>2 powi (- 600)\<close>.
\<close>

lemma line_search_product_zero:
  assumes "(0 < fst (deltaG_base fp cp st irxn) \<and> dx_orig < 0)
         \<or> (fst (deltaG_base fp cp st irxn) < 0 \<and> 0 < dx_orig)"
    and "dmul fp (fst (deltaG_full fp cp (snd (deltaG_base fp cp st irxn)) irxn dx_orig))
           (fst (deltaG_base fp cp st irxn)) = 0"
    and "\<bar>fst (deltaG_full fp cp (snd (deltaG_base fp cp st irxn)) irxn dx_orig)\<bar>
           < dmul fp (dlit fp 0.8)
               (dadd fp \<bar>fst (deltaG_base fp cp st irxn)\<bar> (dlit fp 0.000000000000001))"
  shows "fst (vcs_line_search fp cp st irxn dx_orig) = dx_orig"
proof -
  obtain g0 st0 where b: "deltaG_base fp cp st irxn = (g0, st0)"
    by (cases "deltaG_base fp cp st irxn")
  obtain g1 st1 where f: "deltaG_full fp cp st0 irxn dx_orig = (g1, st1)"
    by (cases "deltaG_full fp cp st0 irxn dx_orig")
  from assms b f have dir: "(0 < g0 \<and> dx_orig < 0) \<or> (g0 < 0 \<and> 0 < dx_orig)"
    and zero: "dmul fp g1 g0 = 0"
    and thr: "\<bar>g1\<bar> < dmul fp (dlit fp 0.8) (dadd fp \<bar>g0\<bar> (dlit fp 0.000000000000001))"
    by simp_all
  from dir have nz: "dx_orig \<noteq> 0" by auto
  from dir show ?thesis
  proof
    assume "0 < g0 \<and> dx_orig < 0"
    then show ?thesis using thr zero nz
      by (simp add: vcs_line_search_def b f Let_def)
  next
    assume "g0 < 0 \<and> 0 < dx_orig"
    then show ?thesis using thr zero nz
      by (simp add: vcs_line_search_def b f Let_def)
  qed
qed

lemma binary64_product_underflow:
  "dmul binary64 (- (2 powi (- 601))) (2 powi (- 600)) = 0"
proof -
  define x :: real where "x = - (2 powi (- 601)) * 2 powi (- 600)"
  have x: "x = - (2 powi (- 1201))"
    unfolding x_def by (simp add: power_int_minus flip: power_add)
  then have small: "\<bar>x\<bar> < 2 powi (- 1022)" by (simp add: power_int_minus)
  have "x * 2 ^ 1074 = - (1 / 2 ^ 127)"
    unfolding x by (simp add: power_int_minus)
  moreover have "round_even (- (1 / 2 ^ 127)) = - 1 + 1"
    by (rule round_even_up) simp_all
  ultimately have "round_even (x * 2 ^ 1074) = 0" by simp
  with b64_subnormal [OF small] have "b64 x = 0" by simp
  then show ?thesis by (simp add: binary64_fields x_def)
qed

section \<open>The balance of the phase totals under the update\<close>

lemma sum_list_agree:
  fixes f g :: "nat \<Rightarrow> real"
  shows "\<forall>i\<in>set js. g i = f i \<Longrightarrow> sum_list (map g js) = sum_list (map f js)"
  by (induction js) auto

lemma sum_list_zero:
  fixes f :: "nat \<Rightarrow> real"
  shows "\<forall>i\<in>set js. f i = 0 \<Longrightarrow> sum_list (map f js) = 0"
  by (induction js) auto

lemma sum_list_change_one:
  fixes f g :: "nat \<Rightarrow> real"
  assumes "x < n" and "\<forall>i. i \<noteq> x \<longrightarrow> g i = f i"
  shows "sum_list (map g (filter P [0..<n]))
           = sum_list (map f (filter P [0..<n])) + (if P x then g x - f x else 0)"
  using assms(1)
proof (induction n)
  case 0
  then show ?case by simp
next
  case (Suc n)
  show ?case
  proof (cases "x = n")
    case True
    have "\<forall>i\<in>set (filter P [0..<n]). g i = f i"
      using assms(2) True by auto
    from sum_list_agree [OF this] True show ?thesis by simp
  next
    case False
    with Suc.prems have "x < n" by simp
    from Suc.IH [OF this] False assms(2) show ?thesis by simp
  qed
qed

lemma phase_balance_iff:
  "phase_balance nsp st = (\<forall>ph<NPhase st. TPhMoles st ph = phase_sum nsp st ph)"
  by (auto simp: phase_balance_def list_all_iff)

lemma phase_balance_add:
  assumes "phase_balance nsp st" and "x < nsp"
    and "soln st' = (soln st)(x := soln st x + d)"
    and "TPhMoles st' = (TPhMoles st)(PhaseID st x := TPhMoles st (PhaseID st x) + d)"
    and "PhaseID st' = PhaseID st" and "NPhase st' = NPhase st"
  shows "phase_balance nsp st'"
proof -
  have "TPhMoles st' ph = phase_sum nsp st' ph" if "ph < NPhase st" for ph
  proof -
    from assms(1) that have b: "TPhMoles st ph = phase_sum nsp st ph"
      by (simp add: phase_balance_iff)
    have "\<forall>i. i \<noteq> x \<longrightarrow> soln st' i = soln st i"
      by (simp add: assms(3))
    from sum_list_change_one [OF assms(2) this, of "\<lambda>i. PhaseID st i = ph"]
    have "phase_sum nsp st' ph
            = phase_sum nsp st ph + (if PhaseID st x = ph then soln st' x - soln st x else 0)"
      by (simp only: phase_sum_def assms(5))
    moreover have "soln st' x - soln st x = d" by (simp add: assms(3))
    ultimately have "phase_sum nsp st' ph
            = phase_sum nsp st ph + (if PhaseID st x = ph then d else 0)"
      by simp
    with b show ?thesis by (auto simp: assms(4))
  qed
  then show ?thesis by (simp add: phase_balance_iff assms(6))
qed

lemma add_component_balance:
  "phase_balance nsp st \<Longrightarrow> j < nsp \<Longrightarrow> phase_balance nsp (add_component irxn dss j st)"
  by (rule phase_balance_add [where x = j and d = "dss * sc st irxn j"])
     (simp_all add: add_component_def Let_def)

lemma fold_add_component_balance:
  "phase_balance nsp st \<Longrightarrow> \<forall>j\<in>set js. j < nsp
     \<Longrightarrow> phase_balance nsp (fold (add_component irxn dss) js st)"
  by (induction js arbitrary: st) (simp_all add: add_component_balance)

lemma phase_balance_zero:
  assumes "phase_balance nsp st"
    and alone: "\<forall>i<nsp. PhaseID st i = PhaseID st k \<longrightarrow> i = k"
    and "soln st' = (soln st)(k := 0)"
    and "TPhMoles st' = (TPhMoles st)(PhaseID st k := 0)"
    and "PhaseID st' = PhaseID st" and "NPhase st' = NPhase st"
  shows "phase_balance nsp st'"
proof -
  have "TPhMoles st' ph = phase_sum nsp st' ph" if "ph < NPhase st" for ph
  proof (cases "ph = PhaseID st k")
    case True
    have "\<forall>i\<in>set (filter (\<lambda>i. PhaseID st i = ph) [0..<nsp]). soln st' i = 0"
      using alone True by (auto simp: assms(3))
    from sum_list_zero [OF this] have "phase_sum nsp st' ph = 0"
      by (simp add: phase_sum_def assms(5))
    with True show ?thesis by (simp add: assms(4))
  next
    case False
    then have "\<forall>i\<in>set (filter (\<lambda>i. PhaseID st i = ph) [0..<nsp]). soln st' i = soln st i"
      by (auto simp: assms(3))
    from sum_list_agree [OF this]
    have "phase_sum nsp st' ph = phase_sum nsp st ph"
      by (simp add: phase_sum_def assms(5))
    moreover from assms(1) that have "TPhMoles st ph = phase_sum nsp st ph"
      by (simp add: phase_balance_iff)
    ultimately show ?thesis using False by (simp add: assms(4))
  qed
  then show ?thesis by (simp add: phase_balance_iff assms(6))
qed

lemma elim_update_balance:
  assumes "phase_balance nsp st" and "ir st irxn < nsp" and "m_numComponents st \<le> nsp"
    and "\<forall>i<nsp. PhaseID st i = PhaseID st k \<longrightarrow> i = k"
  shows "phase_balance nsp (elim_update st irxn dss k)"
proof -
  let ?kspec = "ir st irxn"
  let ?st2 = "st\<lparr>soln := (soln st)(?kspec := soln st ?kspec + dss),
                 TPhMoles := (TPhMoles st)(PhaseID st ?kspec := TPhMoles st (PhaseID st ?kspec) + dss)\<rparr>"
  let ?st3 = "fold (add_component irxn dss) [0..<m_numComponents st] ?st2"
  have b2: "phase_balance nsp ?st2"
    by (rule phase_balance_add [OF assms(1,2), where d = dss]) simp_all
  have b3: "phase_balance nsp ?st3"
    by (rule fold_add_component_balance [OF b2]) (use assms(3) in simp)
  have e: "elim_update st irxn dss k
             = ?st3\<lparr>soln := (soln ?st3)(k := 0), TPhMoles := (TPhMoles ?st3)(PhaseID ?st3 k := 0)\<rparr>"
    by (simp add: elim_update_def Let_def)
  have p3: "PhaseID ?st3 = PhaseID st" by (simp add: fold_add_component_fields)
  show ?thesis unfolding e
    by (rule phase_balance_zero [OF b3, where k = k]) (simp_all add: p3 assms(4))
qed

text \<open>
  Where the species set to zero is the only species of its phase, the update keeps the
  balance: every addition to a mole number goes to the total of its phase as well, and
  the phase set to zero holds nothing else.
\<close>

lemma elim_update_keeps_balance:
  assumes "phase_balance nsp st" and "ir st irxn < nsp" and "m_numComponents st \<le> nsp"
    and "\<forall>i<nsp. PhaseID st i = PhaseID st k \<longrightarrow> i = k"
  shows "phase_balance nsp (elim_update st irxn dss k) \<and> soln (elim_update st irxn dss k) k = 0"
  using elim_update_balance [OF assms] by (simp add: elim_update_zeroed)

lemma solution_and_solids_run:
  "vcs_rxn_adj_cg solution_and_solids = (2, elim_update solution_and_solids 0 10000000000 0)"
proof -
  have "\<forall>j\<in>set [0..<m_numComponents solution_and_solids]. \<not> sc solution_and_solids 0 j < 0"
    by (simp add: solution_and_solids_fields)
  from no_negative_coefficient [OF this]
  have e: "elim_bound solution_and_solids 0 0 = (10000000000, 0)"
    by (simp add: elim_bound_def Let_def solution_and_solids_fields)
  have b: "rxn_body solution_and_solids 0 0
             = Return 2 (elim_update solution_and_solids 0 10000000000 0)"
    by (simp add: rxn_body_degenerate solution_and_solids_degenerate e solution_and_solids_fields)
  have "0 < m_numRxnRdc solution_and_solids" by (simp add: solution_and_solids_fields)
  from rxn_loop_Return [OF this b] show ?thesis by (simp add: vcs_rxn_adj_cg_def)
qed

lemma solution_and_solids_update:
  "soln (elim_update solution_and_solids 0 10000000000 0)
     = (\<lambda>_. 0)(0 := 0, 1 := 10000000004, 2 := 10000000005, 3 := 2)"
  "TPhMoles (elim_update solution_and_solids 0 10000000000 0)
     = (\<lambda>_. 0)(0 := 0, 1 := 10000000004, 2 := 10000000005)"
  "PhaseID (elim_update solution_and_solids 0 10000000000 0) = PhaseID solution_and_solids"
  "NPhase (elim_update solution_and_solids 0 10000000000 0) = 3"
  by (auto simp: elim_update_def add_component_def Let_def solution_and_solids_fields upt_rec)

text \<open>
  C5 at a state the code breaks it on. The phase totals are balanced on entry. Reaction 0
  has a negative free energy change and no component with a negative coefficient, so
  the search leaves \<open>k\<close> at 0 and the update sets component 0 and the total of its
  phase to zero. Species 3 of that phase still holds 2 moles: the total is 0, the sum of
  the members is 2, and the balance is lost.
\<close>

theorem phase_balance_broken:
  "phase_balance 4 solution_and_solids
   \<and> degenerate solution_and_solids 0
   \<and> fst (vcs_rxn_adj_cg solution_and_solids) = 2
   \<and> soln (snd (vcs_rxn_adj_cg solution_and_solids)) 0 = 0
   \<and> TPhMoles (snd (vcs_rxn_adj_cg solution_and_solids)) 0 = 0
   \<and> phase_sum 4 (snd (vcs_rxn_adj_cg solution_and_solids)) 0 = 2
   \<and> \<not> phase_balance 4 (snd (vcs_rxn_adj_cg solution_and_solids))"
proof -
  have before: "phase_balance 4 solution_and_solids"
    by (simp add: phase_balance_def phase_sum_def solution_and_solids_fields upt_rec)
  have s: "phase_sum 4 (elim_update solution_and_solids 0 10000000000 0) 0 = 2"
    by (simp add: phase_sum_def solution_and_solids_update solution_and_solids_fields upt_rec)
  have t: "TPhMoles (elim_update solution_and_solids 0 10000000000 0) 0 = 0"
    and z: "soln (elim_update solution_and_solids 0 10000000000 0) 0 = 0"
    by (simp_all add: solution_and_solids_update)
  have "\<not> phase_balance 4 (elim_update solution_and_solids 0 10000000000 0)"
    using s t by (simp add: phase_balance_iff solution_and_solids_update) (rule exI [of _ 0], simp)
  with before s t z solution_and_solids_degenerate show ?thesis
    by (simp add: solution_and_solids_run)
qed

end
